theory Spec2Isabelle
  imports Complex_Main
begin

section \<open>Task distribution service: data model\<close>

text \<open>
  The embedding follows \<^verbatim>\<open>taskDistributionService.js\<close>. JavaScript numbers are modelled
  as exact numbers: counts and capacities as \<open>int\<close>, percentages, premiums and hybrid
  scores as \<open>real\<close>, so the rounding of double-precision arithmetic is not part of the
  model. A property that may be absent from a JavaScript object is an
  \<open>option\<close>; a thrown \<^verbatim>\<open>TypeError\<close> is \<open>Inl TypeError\<close>; the value \<^verbatim>\<open>undefined\<close>
  returned by an out-of-range array read is \<open>None\<close>. Division by a capacity of zero
  (\<^verbatim>\<open>Infinity\<close> or \<^verbatim>\<open>NaN\<close> in JavaScript) is outside the model: every statement about
  utilization below is about members of positive capacity.

  \<^verbatim>\<open>RETENTION_TEAM\<close> is a module-level constant that the service reads only through
  \<^verbatim>\<open>Object.keys\<close>, \<^verbatim>\<open>Object.entries\<close> and indexing by a key, so every function
  of the model takes the roster as its first argument, an association list in key order,
  and the configured roster is the constant \<open>RETENTION_TEAM\<close> below. The objects built
  with the members' names as keys are association lists in insertion order as well, which
  is the order of \<^verbatim>\<open>Object.keys\<close>, \<^verbatim>\<open>Object.values\<close> and \<^verbatim>\<open>Object.entries\<close>
  for names that are not array indices.
\<close>

datatype error = TypeError

record member_data =
  specialties :: "string list"
  capacity :: int

type_synonym roster = "(string \<times> member_data) list"

definition RETENTION_TEAM :: roster where
  "RETENTION_TEAM =
     [(''Mark Vallejo'', \<lparr>specialties = [''high-value'', ''commercial''], capacity = 15\<rparr>),
      (''Monica Archuleta'', \<lparr>specialties = [''nsf'', ''payment-issues''], capacity = 20\<rparr>),
      (''Stephen Brown'', \<lparr>specialties = [''cancellation'', ''retention''], capacity = 18\<rparr>)]"

text \<open>A task object: the descriptor handed to a strategy and the entries of the snapshot
  of existing tasks are the same kind of object; each property may be missing.\<close>

record task =
  task_id :: string
  task_type :: "string option"
  priority :: "string option"
  premium :: "real option"
  assignedTo :: "string option"
  status :: "string option"

record task_counts =
  high :: nat
  medium :: nat
  low :: nat
  total_count :: nat

text \<open>The per-member entry of the workload analysis. It repeats the member's capacity and
  specialties, so it extends \<open>member_data\<close>.\<close>

record workload = member_data +
  name :: string
  assigned :: int
  utilizationPercent :: real
  available :: int
  tasks :: task_counts
  avgPremium :: real
  totalPremium :: real

type_synonym analysis = "(string \<times> workload) list"

record redistribution =
  taskId :: string
  from_member :: string
  to_member :: string
  reason :: string

text \<open>The service object: the selected strategy and the round-robin counter.\<close>

record service =
  currentStrategy :: string
  lastAssignedIndex :: nat

definition ROUND_ROBIN :: string where "ROUND_ROBIN = ''round_robin''"
definition LOAD_BALANCED :: string where "LOAD_BALANCED = ''load_balanced''"
definition SPECIALTY_FIRST :: string where "SPECIALTY_FIRST = ''specialty_first''"
definition PRIORITY_WEIGHTED :: string where "PRIORITY_WEIGHTED = ''priority_weighted''"
definition HYBRID :: string where "HYBRID = ''hybrid''"

definition distributionStrategies :: "string list" where
  "distributionStrategies = [ROUND_ROBIN, LOAD_BALANCED, SPECIALTY_FIRST, PRIORITY_WEIGHTED, HYBRID]"

definition new_service :: service where
  "new_service = \<lparr>currentStrategy = HYBRID, lastAssignedIndex = 0\<rparr>"

definition setDistributionStrategy :: "service \<Rightarrow> string \<Rightarrow> service \<times> bool" where
  "setDistributionStrategy svc strategy =
     (if strategy \<in> set distributionStrategies
      then (svc\<lparr>currentStrategy := strategy\<rparr>, True) else (svc, False))"

section \<open>String and array helpers of the JavaScript runtime\<close>

fun startsWith :: "string \<Rightarrow> string \<Rightarrow> bool" where
  "startsWith s [] = True"
| "startsWith [] (p # ps) = False"
| "startsWith (c # cs) (p # ps) = (c = p \<and> startsWith cs ps)"

text \<open>\<^verbatim>\<open>s.includes(p)\<close> on strings: \<open>p\<close> occurs in \<open>s\<close> as a contiguous substring.\<close>

fun includes_str :: "string \<Rightarrow> string \<Rightarrow> bool" where
  "includes_str [] p = (p = [])"
| "includes_str (c # cs) p = (startsWith (c # cs) p \<or> includes_str cs p)"

text \<open>\<^verbatim>\<open>[...new Set(xs)]\<close>: the first occurrence of every element, in insertion order.\<close>

definition newSet :: "'a list \<Rightarrow> 'a list" where
  "newSet xs = foldl (\<lambda>acc x. if x \<in> set acc then acc else acc @ [x]) [] xs"

text \<open>\<^verbatim>\<open>xs.slice(0, e)\<close> for an integer \<open>e\<close>: a negative end counts from the end of the array.\<close>

definition slice0 :: "'a list \<Rightarrow> int \<Rightarrow> 'a list" where
  "slice0 xs e = (if e < 0 then take (nat (int (length xs) + e)) xs else take (nat e) xs)"

text \<open>\<^verbatim>\<open>Array.prototype.sort\<close> is stable. With a comparator \<^verbatim>\<open>(a, b) => key(a) - key(b)\<close>
  on numbers it is \<open>sort_key key\<close> (stable insertion sort); the descending comparator
  \<^verbatim>\<open>(a, b) => key(b) - key(a)\<close> is \<open>sort_key (\<lambda>x. - key x)\<close>.\<close>

text \<open>A comparator whose result may be \<^verbatim>\<open>NaN\<close> (\<open>None\<close>): \<^verbatim>\<open>NaN\<close> counts as \<open>0\<close>, so
  an element moves behind another only on a positive result. On inputs where the
  comparator is consistent this is the stable order the engine produces.\<close>

fun insertBy :: "('a \<Rightarrow> 'a \<Rightarrow> int option) \<Rightarrow> 'a \<Rightarrow> 'a list \<Rightarrow> 'a list" where
  "insertBy cmp x [] = [x]"
| "insertBy cmp x (y # ys) =
     (case cmp x y of
        Some d \<Rightarrow> if 0 < d then y # insertBy cmp x ys else x # y # ys
      | None \<Rightarrow> x # y # ys)"

definition sortBy :: "('a \<Rightarrow> 'a \<Rightarrow> int option) \<Rightarrow> 'a list \<Rightarrow> 'a list" where
  "sortBy cmp xs = foldr (insertBy cmp) xs []"

section \<open>Workload analyzer\<close>

definition memberTasksOf :: "string \<Rightarrow> task list \<Rightarrow> task list" where
  "memberTasksOf member existingTasks =
     filter (\<lambda>t. assignedTo t = Some member \<and> status t = Some ''open'') existingTasks"

definition premiumOrZero :: "task \<Rightarrow> real" where
  "premiumOrZero t = (case premium t of None \<Rightarrow> 0 | Some p \<Rightarrow> p)"

definition analyzeMember :: "string \<Rightarrow> member_data \<Rightarrow> task list \<Rightarrow> workload" where
  "analyzeMember member data existingTasks =
     (let memberTasks = memberTasksOf member existingTasks;
          cap = capacity data;
          asg = int (length memberTasks);
          util = (real_of_int asg / real_of_int cap) * 100;
          highPriority = length (filter (\<lambda>t. priority t = Some ''high'') memberTasks);
          mediumPriority = length (filter (\<lambda>t. priority t = Some ''medium'') memberTasks);
          lowPriority = length (filter (\<lambda>t. priority t = Some ''low'') memberTasks);
          totalPrem = foldl (\<lambda>sum t. sum + premiumOrZero t) 0 memberTasks;
          avgPrem = (if length memberTasks > 0 then totalPrem / real (length memberTasks) else 0)
      in \<lparr>specialties = specialties data, capacity = cap, name = member, assigned = asg,
          utilizationPercent = util, available = max 0 (cap - asg),
          tasks = \<lparr>high = highPriority, medium = mediumPriority, low = lowPriority,
                   total_count = length memberTasks\<rparr>,
          avgPremium = avgPrem, totalPremium = totalPrem\<rparr>)"

definition analyzeCurrentWorkload :: "roster \<Rightarrow> task list \<Rightarrow> analysis" where
  "analyzeCurrentWorkload team existingTasks =
     map (\<lambda>(member, data). (member, analyzeMember member data existingTasks)) team"

section \<open>Specialty matcher\<close>

definition premiumAtLeast :: "task \<Rightarrow> real \<Rightarrow> bool" where
  "premiumAtLeast t bound = (case premium t of None \<Rightarrow> False | Some p \<Rightarrow> bound \<le> p)"

text \<open>The body of the \<^verbatim>\<open>forEach\<close> callback for one roster entry: the names it pushes. Its
  first statement reads \<^verbatim>\<open>task.type.includes\<close>, which throws when the type is missing.\<close>

definition specialtyPushes :: "task \<Rightarrow> string \<Rightarrow> member_data \<Rightarrow> error + string list" where
  "specialtyPushes t member data =
     (case task_type t of
        None \<Rightarrow> Inl TypeError
      | Some ty \<Rightarrow>
          Inr ((if includes_str ty ''nsf'' \<and> ''nsf'' \<in> set (specialties data) then [member] else [])
             @ (if includes_str ty ''cancellation'' \<and> ''cancellation'' \<in> set (specialties data)
                then [member] else [])
             @ (if includes_str ty ''retention'' \<and> ''retention'' \<in> set (specialties data)
                then [member] else [])
             @ (if premiumAtLeast t 5000 \<and> ''high-value'' \<in> set (specialties data)
                then [member] else [])
             @ (if includes_str ty ''payment'' \<and> ''payment-issues'' \<in> set (specialties data)
                then [member] else [])
             @ (if includes_str ty ''commercial'' \<and> ''commercial'' \<in> set (specialties data)
                then [member] else [])))"

fun collectMatches :: "roster \<Rightarrow> task \<Rightarrow> string list \<Rightarrow> error + string list" where
  "collectMatches [] t matches = Inr matches"
| "collectMatches ((member, data) # rest) t matches =
     (case specialtyPushes t member data of
        Inl e \<Rightarrow> Inl e
      | Inr pushed \<Rightarrow> collectMatches rest t (matches @ pushed))"

definition findSpecialtyMatches :: "roster \<Rightarrow> task \<Rightarrow> error + string list" where
  "findSpecialtyMatches team t =
     (case collectMatches team t [] of Inl e \<Rightarrow> Inl e | Inr matches \<Rightarrow> Inr (newSet matches))"

section \<open>Assignment strategies\<close>

definition getAvailableMembers :: "analysis \<Rightarrow> workload list" where
  "getAvailableMembers workloadAnalysis =
     sort_key utilizationPercent
       (filter (\<lambda>m. utilizationPercent m < 100) (map snd workloadAnalysis))"

text \<open>Reading \<^verbatim>\<open>[0].name\<close> of an empty array throws.\<close>

definition firstName :: "workload list \<Rightarrow> error + string" where
  "firstName ws = (case ws of [] \<Rightarrow> Inl TypeError | m # _ \<Rightarrow> Inr (name m))"

definition getLeastLoadedMember :: "analysis \<Rightarrow> error + string" where
  "getLeastLoadedMember workloadAnalysis =
     firstName (sort_key utilizationPercent (map snd workloadAnalysis))"

text \<open>\<^verbatim>\<open>memberList.map((name) => workloadAnalysis[name])\<close> yields \<^verbatim>\<open>undefined\<close> for a name
  without an entry; \<^verbatim>\<open>sort\<close> moves such elements to the end without comparing them, so the
  first element is the least utilized of the entries found, if there is one.\<close>

definition getLeastLoadedFromList :: "string list \<Rightarrow> analysis \<Rightarrow> error + string" where
  "getLeastLoadedFromList memberList workloadAnalysis =
     firstName (sort_key utilizationPercent (List.map_filter (map_of workloadAnalysis) memberList))"

definition getPriorityMultiplier :: "string option \<Rightarrow> real" where
  "getPriorityMultiplier p =
     (if p = Some ''high'' then 1.5
      else if p = Some ''medium'' then 1.0
      else if p = Some ''low'' then 0.8
      else 1.0)"

text \<open>\<^verbatim>\<open>teamMembers[i % n]\<close>: with no member the index is \<^verbatim>\<open>NaN\<close> and the read gives
  \<^verbatim>\<open>undefined\<close>. The counter is incremented in every case.\<close>

definition roundRobinAssignment :: "roster \<Rightarrow> service \<Rightarrow> string option \<times> service" where
  "roundRobinAssignment team svc =
     (let teamMembers = map fst team;
          assignedMember =
            (if teamMembers = [] then None
             else Some (teamMembers ! (lastAssignedIndex svc mod length teamMembers)))
      in (assignedMember, svc\<lparr>lastAssignedIndex := lastAssignedIndex svc + 1\<rparr>))"

definition loadBalancedAssignment :: "roster \<Rightarrow> task list \<Rightarrow> error + string option" where
  "loadBalancedAssignment team existingTasks =
     (let workloadAnalysis = analyzeCurrentWorkload team existingTasks;
          availableMembers = getAvailableMembers workloadAnalysis
      in case availableMembers of
           [] \<Rightarrow> (case getLeastLoadedMember workloadAnalysis of
                    Inl e \<Rightarrow> Inl e | Inr n \<Rightarrow> Inr (Some n))
         | m # _ \<Rightarrow> Inr (Some (name m)))"

text \<open>The filter of the specialty-first strategy reads
  \<^verbatim>\<open>workloadAnalysis[member].utilizationPercent\<close>, which throws for a name without entry.\<close>

fun availableSpecialists :: "analysis \<Rightarrow> string list \<Rightarrow> error + string list" where
  "availableSpecialists workloadAnalysis [] = Inr []"
| "availableSpecialists workloadAnalysis (member # rest) =
     (case map_of workloadAnalysis member of
        None \<Rightarrow> Inl TypeError
      | Some w \<Rightarrow>
          (case availableSpecialists workloadAnalysis rest of
             Inl e \<Rightarrow> Inl e
           | Inr r \<Rightarrow> Inr (if utilizationPercent w < 100 then member # r else r)))"

definition specialtyFirstAssignment :: "roster \<Rightarrow> task \<Rightarrow> task list \<Rightarrow> error + string option" where
  "specialtyFirstAssignment team t existingTasks =
     (let workloadAnalysis = analyzeCurrentWorkload team existingTasks
      in case findSpecialtyMatches team t of
           Inl e \<Rightarrow> Inl e
         | Inr specialtyMatches \<Rightarrow>
             (case availableSpecialists workloadAnalysis specialtyMatches of
                Inl e \<Rightarrow> Inl e
              | Inr [] \<Rightarrow> loadBalancedAssignment team existingTasks
              | Inr (s # ss) \<Rightarrow>
                  (case getLeastLoadedFromList (s # ss) workloadAnalysis of
                     Inl e \<Rightarrow> Inl e | Inr n \<Rightarrow> Inr (Some n))))"

text \<open>\<^verbatim>\<open>calculateMemberScores\<close>: the callback calls \<^verbatim>\<open>findSpecialtyMatches\<close> on the whole
  roster for every member, then reads \<^verbatim>\<open>workload.available\<close>.\<close>

fun memberScoresLoop :: "roster \<Rightarrow> roster \<Rightarrow> task \<Rightarrow> analysis \<Rightarrow> error + (string \<times> int) list" where
  "memberScoresLoop team [] t workloadAnalysis = Inr []"
| "memberScoresLoop team ((member, data) # rest) t workloadAnalysis =
     (case findSpecialtyMatches team t of
        Inl e \<Rightarrow> Inl e
      | Inr specialtyMatches \<Rightarrow>
          (case map_of workloadAnalysis member of
             None \<Rightarrow> Inl TypeError
           | Some w \<Rightarrow>
               (let score = available w
                      + (if member \<in> set specialtyMatches then 10 else 0)
                      + (if priority t = Some ''high'' then 5 else 0)
                      + (if premiumAtLeast t 5000 then 3 else 0)
                in case memberScoresLoop team rest t workloadAnalysis of
                     Inl e \<Rightarrow> Inl e
                   | Inr r \<Rightarrow> Inr ((member, max 0 score) # r))))"

definition calculateMemberScores :: "roster \<Rightarrow> task \<Rightarrow> analysis \<Rightarrow> error + (string \<times> int) list" where
  "calculateMemberScores team t workloadAnalysis = memberScoresLoop team team t workloadAnalysis"

text \<open>\<^verbatim>\<open>Object.entries(scores).sort(([, a], [, b]) => b - a).map(([name]) => name)[0]\<close>:
  the entries in insertion order, sorted by descending score, first name or \<^verbatim>\<open>undefined\<close>.\<close>

definition bestScored :: "(string \<times> 'a::{linorder,uminus}) list \<Rightarrow> string option" where
  "bestScored scores =
     (case map fst (sort_key (\<lambda>(n, s). - s) scores) of [] \<Rightarrow> None | n # _ \<Rightarrow> Some n)"

definition priorityWeightedAssignment :: "roster \<Rightarrow> task \<Rightarrow> task list \<Rightarrow> error + string option" where
  "priorityWeightedAssignment team t existingTasks =
     (let workloadAnalysis = analyzeCurrentWorkload team existingTasks
      in case calculateMemberScores team t workloadAnalysis of
           Inl e \<Rightarrow> Inl e
         | Inr scores \<Rightarrow> Inr (bestScored scores))"

text \<open>The hybrid score of one member: the body of the \<^verbatim>\<open>forEach\<close> callback of
  \<^verbatim>\<open>hybridAssignment\<close>, given the member's workload entry and whether the member is among
  the specialty matches.\<close>

definition highValueBonus :: "string \<Rightarrow> task \<Rightarrow> bool" where
  "highValueBonus member t = (member = ''Mark Vallejo'' \<and> premiumAtLeast t 5000)"

definition hybridScore :: "string \<Rightarrow> task \<Rightarrow> workload \<Rightarrow> bool \<Rightarrow> real" where
  "hybridScore member t w isSpecialist =
     (let priorityMultiplier = getPriorityMultiplier (priority t);
          score0 = max 0 (100 - utilizationPercent w);
          score1 = (if isSpecialist then score0 + 50 else score0);
          score2 = (if highValueBonus member t then score1 + 30 else score1);
          score3 = score2 * priorityMultiplier;
          score4 = (if utilizationPercent w > 100 then score3 * 0.5 else score3);
          score5 = (if utilizationPercent w > 150 then score4 * 0.3 else score4)
      in score5)"

fun hybridScores :: "roster \<Rightarrow> analysis \<Rightarrow> string list \<Rightarrow> task \<Rightarrow> error + (string \<times> real) list" where
  "hybridScores [] workloadAnalysis specialtyMatches t = Inr []"
| "hybridScores ((member, data) # rest) workloadAnalysis specialtyMatches t =
     (case map_of workloadAnalysis member of
        None \<Rightarrow> Inl TypeError
      | Some w \<Rightarrow>
          (case hybridScores rest workloadAnalysis specialtyMatches t of
             Inl e \<Rightarrow> Inl e
           | Inr r \<Rightarrow>
               Inr ((member, hybridScore member t w (member \<in> set specialtyMatches)) # r)))"

definition hybridAssignment :: "roster \<Rightarrow> task \<Rightarrow> task list \<Rightarrow> error + string option" where
  "hybridAssignment team t existingTasks =
     (let workloadAnalysis = analyzeCurrentWorkload team existingTasks
      in case findSpecialtyMatches team t of
           Inl e \<Rightarrow> Inl e
         | Inr specialtyMatches \<Rightarrow>
             (case hybridScores team workloadAnalysis specialtyMatches t of
                Inl e \<Rightarrow> Inl e
              | Inr scores \<Rightarrow> Inr (bestScored scores)))"

text \<open>\<^verbatim>\<open>strategy || this.currentStrategy\<close>: a missing, \<^verbatim>\<open>null\<close> or empty strategy argument
  is falsy and selects the service's current strategy.\<close>

definition activeStrategy :: "service \<Rightarrow> string option \<Rightarrow> string" where
  "activeStrategy svc strategy =
     (case strategy of
        None \<Rightarrow> currentStrategy svc
      | Some s \<Rightarrow> if s = [] then currentStrategy svc else s)"

definition distributeTask ::
  "roster \<Rightarrow> service \<Rightarrow> task \<Rightarrow> task list \<Rightarrow> string option \<Rightarrow> (error + string option) \<times> service" where
  "distributeTask team svc t existingTasks strategy =
     (let active = activeStrategy svc strategy
      in if active = ROUND_ROBIN then
           (case roundRobinAssignment team svc of (m, svc') \<Rightarrow> (Inr m, svc'))
         else if active = LOAD_BALANCED then (loadBalancedAssignment team existingTasks, svc)
         else if active = SPECIALTY_FIRST then (specialtyFirstAssignment team t existingTasks, svc)
         else if active = PRIORITY_WEIGHTED then
           (priorityWeightedAssignment team t existingTasks, svc)
         else if active = HYBRID then (hybridAssignment team t existingTasks, svc)
         else (hybridAssignment team t existingTasks, svc))"

section \<open>Redistribution engine\<close>

text \<open>\<^verbatim>\<open>findBestRedistributionTarget\<close> receives the underloaded entries and the workload
  analysis; it reads only the names of the former and nothing of the latter.\<close>

definition findBestRedistributionTarget ::
  "roster \<Rightarrow> task \<Rightarrow> string list \<Rightarrow> analysis \<Rightarrow> error + string option" where
  "findBestRedistributionTarget team t underloadedMembers workloadAnalysis =
     (case findSpecialtyMatches team t of
        Inl e \<Rightarrow> Inl e
      | Inr specialtyMatches \<Rightarrow>
          (case filter (\<lambda>m. m \<in> set specialtyMatches) underloadedMembers of
             s # _ \<Rightarrow> Inr (Some s)
           | [] \<Rightarrow> (case underloadedMembers of [] \<Rightarrow> Inr None | u # _ \<Rightarrow> Inr (Some u))))"

text \<open>\<^verbatim>\<open>workloadAnalysis[k].assigned--\<close> and \<^verbatim>\<open>++\<close>: an in-place update of the entry under
  key \<open>k\<close>; it throws when there is no such entry.\<close>

definition adjustAssigned :: "analysis \<Rightarrow> string \<Rightarrow> int \<Rightarrow> error + analysis" where
  "adjustAssigned workloadAnalysis k d =
     (case map_of workloadAnalysis k of
        None \<Rightarrow> Inl TypeError
      | Some _ \<Rightarrow>
          Inr (map (\<lambda>(k', w). if k' = k then (k', w\<lparr>assigned := assigned w + d\<rparr>) else (k', w))
                 workloadAnalysis))"

definition priorityOrder :: "string option \<Rightarrow> int option" where
  "priorityOrder p =
     (if p = Some ''low'' then Some 1
      else if p = Some ''medium'' then Some 2
      else if p = Some ''high'' then Some 3
      else None)"

text \<open>\<^verbatim>\<open>priorityOrder[a.priority] - priorityOrder[b.priority]\<close>; \<^verbatim>\<open>NaN\<close> when a priority is
  not in the table.\<close>

definition comparePriority :: "task \<Rightarrow> task \<Rightarrow> int option" where
  "comparePriority a b =
     (case (priorityOrder (priority a), priorityOrder (priority b)) of
        (Some x, Some y) \<Rightarrow> Some (x - y)
      | _ \<Rightarrow> None)"

text \<open>The inner \<^verbatim>\<open>forEach\<close> over the tasks selected to move away from \<open>source\<close>. The state
  is the workload analysis, mutated in place by the source, and the list of proposals.
  The test \<^verbatim>\<open>if (bestTarget)\<close> fails for \<^verbatim>\<open>null\<close> and for an empty name.\<close>

fun moveTasks ::
  "roster \<Rightarrow> string list \<Rightarrow> string \<Rightarrow> task list \<Rightarrow> analysis \<times> redistribution list
     \<Rightarrow> error + analysis \<times> redistribution list" where
  "moveTasks team underloaded source [] st = Inr st"
| "moveTasks team underloaded source (t # ts) (workloadAnalysis, redistributions) =
     (case findBestRedistributionTarget team t underloaded workloadAnalysis of
        Inl e \<Rightarrow> Inl e
      | Inr None \<Rightarrow> moveTasks team underloaded source ts (workloadAnalysis, redistributions)
      | Inr (Some bestTarget) \<Rightarrow>
          (if bestTarget = [] then
             moveTasks team underloaded source ts (workloadAnalysis, redistributions)
           else
             (case adjustAssigned workloadAnalysis source (- 1) of
                Inl e \<Rightarrow> Inl e
              | Inr wa1 \<Rightarrow>
                  (case adjustAssigned wa1 bestTarget 1 of
                     Inl e \<Rightarrow> Inl e
                   | Inr wa2 \<Rightarrow>
                       moveTasks team underloaded source ts
                         (wa2, redistributions @
                            [\<lparr>taskId = task_id t, from_member = source, to_member = bestTarget,
                              reason = ''Load balancing''\<rparr>])))))"

text \<open>The outer \<^verbatim>\<open>forEach\<close> over the overloaded members. The arrays \<^verbatim>\<open>overloaded\<close> and
  \<^verbatim>\<open>underloaded\<close> hold references to the entries of the workload analysis; the model
  keeps the entries in the analysis and the arrays hold their keys, so that
  \<^verbatim>\<open>overloadedMember.assigned\<close> is read from the analysis as it is at that moment.\<close>

fun redistributeLoop ::
  "roster \<Rightarrow> task list \<Rightarrow> string list \<Rightarrow> string list \<Rightarrow> analysis \<times> redistribution list
     \<Rightarrow> error + analysis \<times> redistribution list" where
  "redistributeLoop team existingTasks underloaded [] st = Inr st"
| "redistributeLoop team existingTasks underloaded (overloadedMember # rest)
       (workloadAnalysis, redistributions) =
     (case map_of workloadAnalysis overloadedMember of
        None \<Rightarrow> Inl TypeError
      | Some w \<Rightarrow>
          (let memberTasks = memberTasksOf overloadedMember existingTasks;
               sortedTasks = sortBy comparePriority memberTasks;
               tasksToMove = \<lfloor>real_of_int (assigned w) * 0.2\<rfloor>
           in case moveTasks team underloaded overloadedMember (slice0 sortedTasks tasksToMove)
                     (workloadAnalysis, redistributions) of
                Inl e \<Rightarrow> Inl e
              | Inr st' \<Rightarrow> redistributeLoop team existingTasks underloaded rest st'))"

definition overloadedOf :: "analysis \<Rightarrow> real \<Rightarrow> string list" where
  "overloadedOf workloadAnalysis maxImbalancePercent =
     map name (sort_key (\<lambda>m. - utilizationPercent m)
       (filter (\<lambda>m. utilizationPercent m > 100 + maxImbalancePercent) (map snd workloadAnalysis)))"

definition underloadedOf :: "analysis \<Rightarrow> real \<Rightarrow> string list" where
  "underloadedOf workloadAnalysis maxImbalancePercent =
     map name (sort_key utilizationPercent
       (filter (\<lambda>m. utilizationPercent m < 100 - maxImbalancePercent) (map snd workloadAnalysis)))"

definition redistributeTasks :: "roster \<Rightarrow> task list \<Rightarrow> real \<Rightarrow> error + redistribution list" where
  "redistributeTasks team existingTasks maxImbalancePercent =
     (let workloadAnalysis = analyzeCurrentWorkload team existingTasks;
          overloaded = overloadedOf workloadAnalysis maxImbalancePercent;
          underloaded = underloadedOf workloadAnalysis maxImbalancePercent
      in case redistributeLoop team existingTasks underloaded overloaded (workloadAnalysis, []) of
           Inl e \<Rightarrow> Inl e
         | Inr (_, redistributions) \<Rightarrow> Inr redistributions)"

section \<open>Reporting\<close>

text \<open>\<^verbatim>\<open>calculateBalanceScore\<close>: with no entry both divisions are \<^verbatim>\<open>0/0\<close> and the result is
  \<^verbatim>\<open>NaN\<close>, modelled as \<open>None\<close>.\<close>

definition calculateBalanceScore :: "analysis \<Rightarrow> real option" where
  "calculateBalanceScore workloadAnalysis =
     (let utilizations = map (\<lambda>m. utilizationPercent m) (map snd workloadAnalysis)
      in if utilizations = [] then None
         else
           (let avg = foldl (\<lambda>sum u. sum + u) 0 utilizations / real (length utilizations);
                variance = foldl (\<lambda>sum u. sum + (u - avg) ^ 2) 0 utilizations
                             / real (length utilizations);
                standardDeviation = sqrt variance
            in Some (max 0 (100 - standardDeviation))))"

section \<open>Sample inputs\<close>

definition nsfTask :: task where
  "nsfTask = \<lparr>task_id = ''n1'', task_type = Some ''nsf'', priority = Some ''medium'',
               premium = Some 1200, assignedTo = None, status = None\<rparr>"

definition untypedTask :: task where
  "untypedTask = \<lparr>task_id = ''n2'', task_type = None, priority = Some ''high'',
                   premium = Some 1200, assignedTo = None, status = None\<rparr>"

text \<open>A snapshot entry: an open task of unmatched type and low priority.\<close>

definition openTask :: "string \<Rightarrow> string \<Rightarrow> task" where
  "openTask i member = \<lparr>task_id = i, task_type = Some ''other'', priority = Some ''low'',
      premium = None, assignedTo = Some member, status = Some ''open''\<rparr>"

text \<open>Two entries of the configured roster.\<close>

definition markData :: member_data where
  "markData = \<lparr>specialties = [''high-value'', ''commercial''], capacity = 15\<rparr>"

definition monicaData :: member_data where
  "monicaData = \<lparr>specialties = [''nsf'', ''payment-issues''], capacity = 20\<rparr>"

text \<open>29 and 31 open tasks of Monica Archuleta (capacity 20): 145 and 155 percent.\<close>

definition nearCriticalTasks :: "task list" where
  "nearCriticalTasks =
     map (\<lambda>c. openTask [c] ''Monica Archuleta'') ''abcdefghijklmnopqrstuvwxyzABC''"

definition criticalTasks :: "task list" where
  "criticalTasks =
     map (\<lambda>c. openTask [c] ''Monica Archuleta'') ''abcdefghijklmnopqrstuvwxyzABCDE''"

text \<open>A roster of two members of capacity 10, with a snapshot that puts the first at 200 percent
  and the second at 10 percent, and one that puts them at 0 percent and 100 percent.\<close>

definition scenarioTeam :: roster where
  "scenarioTeam = [(''A'', \<lparr>specialties = [''nsf''], capacity = 10\<rparr>),
                   (''B'', \<lparr>specialties = [], capacity = 10\<rparr>)]"

definition scenarioTasks :: "task list" where
  "scenarioTasks = map (\<lambda>c. openTask [c] ''A'') ''abcdefghijklmnopqrst'' @ [openTask ''u'' ''B'']"

definition balanceTasks :: "task list" where
  "balanceTasks = map (\<lambda>c. openTask [c] ''B'') ''abcdefghij''"

text \<open>23 open tasks of the first member of the configured roster (capacity 15), nothing
  for the other two.\<close>

definition overloadTasks :: "task list" where
  "overloadTasks = map (\<lambda>c. openTask [c] ''Mark Vallejo'') ''abcdefghijklmnopqrstuvw''"

definition assignedCounts :: "analysis \<Rightarrow> (string \<times> int) list" where
  "assignedCounts wa = map (\<lambda>(k, w). (k, assigned w)) wa"

section \<open>The rules as the specification words them\<close>

text \<open>The hybrid score with the bonus of 30 given by attribute: to a member whose declared
  specialties include \<open>high-value\<close>, for a premium of at least 5000.\<close>

definition hybridScore_spec :: "member_data \<Rightarrow> task \<Rightarrow> workload \<Rightarrow> bool \<Rightarrow> real" where
  "hybridScore_spec data t w isSpecialist =
     (max 0 (100 - utilizationPercent w)
        + (if isSpecialist then 50 else 0)
        + (if ''high-value'' \<in> set (specialties data) \<and> premiumAtLeast t 5000 then 30 else 0))
     * getPriorityMultiplier (priority t)
     * (if utilizationPercent w > 100 then 0.5 else 1)
     * (if utilizationPercent w > 150 then 0.3 else 1)"

text \<open>Mean and population standard deviation of a list of numbers.\<close>

definition mean :: "real list \<Rightarrow> real" where
  "mean us = sum_list us / real (length us)"

definition stddev :: "real list \<Rightarrow> real" where
  "stddev us = sqrt (sum_list (map (\<lambda>u. (u - mean us) ^ 2) us) / real (length us))"

section \<open>Basic facts about the analyzer, the matcher and the strategies\<close>

lemma analyze_keys: "map fst (analyzeCurrentWorkload team ex) = map fst team"
  by (induction team) (auto simp: analyzeCurrentWorkload_def)

lemma analyze_lookup:
  "map_of (analyzeCurrentWorkload team ex) m = map_option (\<lambda>d. analyzeMember m d ex) (map_of team m)"
  by (induction team) (auto simp: analyzeCurrentWorkload_def)

lemma analyze_entry:
  "(k, w) \<in> set (analyzeCurrentWorkload team ex) \<Longrightarrow> \<exists>d. (k, d) \<in> set team \<and> w = analyzeMember k d ex"
  by (auto simp: analyzeCurrentWorkload_def)

lemma analyzeMember_name: "name (analyzeMember k d ex) = k"
  by (simp add: analyzeMember_def Let_def)

lemma analyze_snd_name:
  "w \<in> set (map snd (analyzeCurrentWorkload team ex)) \<Longrightarrow> name w \<in> fst ` set team"
  by (force simp: analyzeCurrentWorkload_def analyzeMember_name)

lemma set_newSet_aux:
  "set (foldl (\<lambda>acc x. if x \<in> set acc then acc else acc @ [x]) acc xs) = set acc \<union> set xs"
  by (induction xs arbitrary: acc) auto

lemma set_newSet: "set (newSet xs) = set xs"
  by (simp add: newSet_def set_newSet_aux)

lemma specialtyPushes_typed:
  "task_type t = Some ty \<Longrightarrow> \<exists>ps. specialtyPushes t m d = Inr ps \<and> set ps \<subseteq> {m}"
  by (auto simp: specialtyPushes_def)

lemma collectMatches_typed:
  "task_type t = Some ty \<Longrightarrow>
   \<exists>ms. collectMatches team t acc = Inr ms \<and> set ms \<subseteq> set acc \<union> fst ` set team"
proof (induction team arbitrary: acc)
  case Nil
  then show ?case by simp
next
  case (Cons a team)
  obtain m d where a: "a = (m, d)" by (cases a)
  from specialtyPushes_typed[OF Cons.prems, of m d]
  obtain ps where ps: "specialtyPushes t m d = Inr ps" "set ps \<subseteq> {m}" by blast
  from Cons.IH[OF Cons.prems, of "acc @ ps"]
  obtain ms where ms: "collectMatches team t (acc @ ps) = Inr ms"
    "set ms \<subseteq> set (acc @ ps) \<union> fst ` set team" by blast
  show ?case using a ps ms by auto
qed

lemma findSpecialtyMatches_typed:
  "task_type t = Some ty \<Longrightarrow>
   \<exists>sm. findSpecialtyMatches team t = Inr sm \<and> set sm \<subseteq> fst ` set team"
  using collectMatches_typed[of t ty team "[]"]
  by (auto simp: findSpecialtyMatches_def set_newSet)

lemma findSpecialtyMatches_untyped:
  "task_type t = None \<Longrightarrow> team \<noteq> [] \<Longrightarrow> findSpecialtyMatches team t = Inl TypeError"
  by (cases team) (auto simp: findSpecialtyMatches_def specialtyPushes_def)

lemma findSpecialtyMatches_empty: "findSpecialtyMatches [] t = Inr []"
  by (simp add: findSpecialtyMatches_def newSet_def)

lemma firstName_sorted:
  "ws \<noteq> [] \<Longrightarrow> \<exists>w \<in> set ws. firstName (sort_key f ws) = Inr (name w)"
proof -
  assume "ws \<noteq> []"
  then have "sort_key f ws \<noteq> []" by (metis length_0_conv length_sort)
  then obtain w rest where s: "sort_key f ws = w # rest" by (cases "sort_key f ws") auto
  then have "w \<in> set ws" by (metis list.set_intros(1) set_sort)
  then show ?thesis using s by (auto simp: firstName_def)
qed

lemma roundRobin_member:
  "team \<noteq> [] \<Longrightarrow> \<exists>n. fst (roundRobinAssignment team svc) = Some n \<and> n \<in> fst ` set team"
proof -
  assume "team \<noteq> []"
  then have "lastAssignedIndex svc mod length (map fst team) < length (map fst team)" by simp
  then have "map fst team ! (lastAssignedIndex svc mod length (map fst team)) \<in> set (map fst team)"
    by (rule nth_mem)
  then show ?thesis using \<open>team \<noteq> []\<close> by (simp add: roundRobinAssignment_def Let_def)
qed

lemma getLeastLoadedMember_member:
  assumes "team \<noteq> []"
  shows "\<exists>n. getLeastLoadedMember (analyzeCurrentWorkload team ex) = Inr n \<and> n \<in> fst ` set team"
proof -
  let ?ws = "map snd (analyzeCurrentWorkload team ex)"
  have "?ws \<noteq> []" using assms by (simp add: analyzeCurrentWorkload_def)
  from firstName_sorted[OF this, of utilizationPercent]
  obtain w where "w \<in> set ?ws" "firstName (sort_key utilizationPercent ?ws) = Inr (name w)" by blast
  then show ?thesis using analyze_snd_name[of w team ex]
    by (auto simp: getLeastLoadedMember_def)
qed

lemma loadBalanced_member:
  assumes "team \<noteq> []"
  shows "\<exists>n. loadBalancedAssignment team ex = Inr (Some n) \<and> n \<in> fst ` set team"
proof (cases "getAvailableMembers (analyzeCurrentWorkload team ex)")
  case Nil
  then show ?thesis using getLeastLoadedMember_member[OF assms, of ex]
    by (force simp: loadBalancedAssignment_def Let_def)
next
  case (Cons m ms)
  then have "m \<in> set (getAvailableMembers (analyzeCurrentWorkload team ex))" by simp
  then have "m \<in> set (map snd (analyzeCurrentWorkload team ex))"
    by (simp add: getAvailableMembers_def)
  then have "name m \<in> fst ` set team" by (rule analyze_snd_name)
  then show ?thesis using Cons by (simp add: loadBalancedAssignment_def Let_def)
qed


lemma availableSpecialists_ok:
  "set sm \<subseteq> fst ` set wa \<Longrightarrow> \<exists>r. availableSpecialists wa sm = Inr r \<and> set r \<subseteq> set sm"
proof (induction sm)
  case Nil
  then show ?case by simp
next
  case (Cons m sm)
  then have "m \<in> fst ` set wa" by simp
  then obtain w where w: "map_of wa m = Some w"
    by (metis domD dom_map_of_conv_image_fst)
  from Cons obtain r where "availableSpecialists wa sm = Inr r" "set r \<subseteq> set sm" by auto
  then show ?case using w by auto
qed

lemma map_of_analyze_name:
  "map_of (analyzeCurrentWorkload team ex) k = Some w \<Longrightarrow> name w = k"
  by (auto dest!: map_of_SomeD analyze_entry simp: analyzeMember_name)

lemma set_map_filter_iff:
  "w \<in> set (List.map_filter f xs) \<longleftrightarrow> (\<exists>x \<in> set xs. f x = Some w)"
  by (induction xs) (auto split: option.splits)

lemma getLeastLoadedFromList_member:
  assumes "ms \<noteq> []" and "set ms \<subseteq> fst ` set team"
  shows "\<exists>n. getLeastLoadedFromList ms (analyzeCurrentWorkload team ex) = Inr n \<and> n \<in> fst ` set team"
proof -
  let ?wa = "analyzeCurrentWorkload team ex"
  let ?ws = "List.map_filter (map_of ?wa) ms"
  obtain m where m: "m \<in> set ms" using assms(1) by (cases ms) auto
  then have "m \<in> fst ` set ?wa" using assms(2) analyze_keys[of team ex]
    by (metis set_map subsetD)
  then obtain w where w: "map_of ?wa m = Some w" by (metis domD dom_map_of_conv_image_fst)
  then have "w \<in> set ?ws" using m by (auto simp: set_map_filter_iff)
  then have "?ws \<noteq> []" by auto
  from firstName_sorted[OF this, of utilizationPercent]
  obtain w' where w': "w' \<in> set ?ws" "firstName (sort_key utilizationPercent ?ws) = Inr (name w')"
    by blast
  then obtain k where "k \<in> set ms" "map_of ?wa k = Some w'" by (auto simp: set_map_filter_iff)
  then have "name w' \<in> fst ` set team" using map_of_analyze_name assms(2) by blast
  then show ?thesis using w' by (auto simp: getLeastLoadedFromList_def)
qed

lemma specialtyFirst_member:
  assumes "team \<noteq> []" and ty: "task_type t = Some ty"
  shows "\<exists>n. specialtyFirstAssignment team t ex = Inr (Some n) \<and> n \<in> fst ` set team"
proof -
  let ?wa = "analyzeCurrentWorkload team ex"
  from findSpecialtyMatches_typed[OF ty, of team]
  obtain sm where sm: "findSpecialtyMatches team t = Inr sm" "set sm \<subseteq> fst ` set team" by blast
  have keys: "fst ` set ?wa = fst ` set team" using analyze_keys[of team ex] by (metis set_map)
  from availableSpecialists_ok[of sm ?wa] sm keys
  obtain r where r: "availableSpecialists ?wa sm = Inr r" "set r \<subseteq> set sm" by auto
  show ?thesis
  proof (cases r)
    case Nil
    then show ?thesis using sm r loadBalanced_member[OF assms(1), of ex]
      by (simp add: specialtyFirstAssignment_def Let_def)
  next
    case (Cons s ss)
    then have "r \<noteq> []" "set r \<subseteq> fst ` set team" using r sm by auto
    from getLeastLoadedFromList_member[OF this, of ex]
    show ?thesis using sm r Cons by (force simp: specialtyFirstAssignment_def Let_def)
  qed
qed

lemma bestScored_member:
  "scores \<noteq> [] \<Longrightarrow> \<exists>n. bestScored scores = Some n \<and> n \<in> fst ` set scores"
proof -
  assume "scores \<noteq> []"
  let ?s = "sort_key (\<lambda>(n, s). - s) scores"
  have "?s \<noteq> []" using \<open>scores \<noteq> []\<close> by (metis length_0_conv length_sort)
  then obtain p rest where s: "?s = p # rest" by (cases ?s) auto
  then have "p \<in> set scores" by (metis list.set_intros(1) set_sort)
  then show ?thesis using s by (auto simp: bestScored_def)
qed

lemma bestScored_Nil: "bestScored [] = None"
  by (simp add: bestScored_def)

lemma memberScoresLoop_ok:
  assumes ty: "task_type t = Some ty"
  shows "set (map fst rest) \<subseteq> fst ` set wa \<Longrightarrow>
         \<exists>scores. memberScoresLoop team rest t wa = Inr scores \<and> map fst scores = map fst rest"
proof (induction rest)
  case Nil
  then show ?case by simp
next
  case (Cons a rest)
  obtain m d where a: "a = (m, d)" by (cases a)
  from findSpecialtyMatches_typed[OF ty, of team]
  obtain sm where sm: "findSpecialtyMatches team t = Inr sm" by blast
  from Cons.prems a have "m \<in> fst ` set wa" by simp
  then obtain w where w: "map_of wa m = Some w" by (metis domD dom_map_of_conv_image_fst)
  from Cons obtain scores where "memberScoresLoop team rest t wa = Inr scores"
    "map fst scores = map fst rest" by auto
  then show ?case using a sm w by (simp add: Let_def)
qed

lemma priorityWeighted_member:
  assumes "team \<noteq> []" and ty: "task_type t = Some ty"
  shows "\<exists>n. priorityWeightedAssignment team t ex = Inr (Some n) \<and> n \<in> fst ` set team"
proof -
  let ?wa = "analyzeCurrentWorkload team ex"
  have "set (map fst team) \<subseteq> fst ` set ?wa" using analyze_keys[of team ex] by (metis set_map subset_refl)
  from memberScoresLoop_ok[OF ty this, of team]
  obtain scores where sc: "memberScoresLoop team team t ?wa = Inr scores" "map fst scores = map fst team"
    by blast
  then have "scores \<noteq> []" using assms(1) by auto
  from bestScored_member[OF this] obtain n where "bestScored scores = Some n" "n \<in> fst ` set scores"
    by blast
  moreover have "fst ` set scores = fst ` set team" using sc(2) by (metis set_map)
  ultimately show ?thesis using sc
    by (simp add: priorityWeightedAssignment_def calculateMemberScores_def Let_def)
qed

lemma hybridScores_ok:
  "set (map fst rest) \<subseteq> fst ` set wa \<Longrightarrow>
     \<exists>scores. hybridScores rest wa sm t = Inr scores \<and> map fst scores = map fst rest"
proof (induction rest)
  case Nil
  then show ?case by simp
next
  case (Cons a rest)
  obtain m d where a: "a = (m, d)" by (cases a)
  from Cons.prems a have "m \<in> fst ` set wa" by simp
  then obtain w where w: "map_of wa m = Some w" by (metis domD dom_map_of_conv_image_fst)
  from Cons obtain scores where "hybridScores rest wa sm t = Inr scores"
    "map fst scores = map fst rest" by auto
  then show ?case using a w by simp
qed

lemma hybrid_member:
  assumes "team \<noteq> []" and ty: "task_type t = Some ty"
  shows "\<exists>n. hybridAssignment team t ex = Inr (Some n) \<and> n \<in> fst ` set team"
proof -
  let ?wa = "analyzeCurrentWorkload team ex"
  from findSpecialtyMatches_typed[OF ty, of team]
  obtain sm where sm: "findSpecialtyMatches team t = Inr sm" by blast
  have "set (map fst team) \<subseteq> fst ` set ?wa" using analyze_keys[of team ex] by (metis set_map subset_refl)
  from hybridScores_ok[OF this, of sm t]
  obtain scores where sc: "hybridScores team ?wa sm t = Inr scores" "map fst scores = map fst team"
    by blast
  then have "scores \<noteq> []" using assms(1) by auto
  from bestScored_member[OF this] obtain n where "bestScored scores = Some n" "n \<in> fst ` set scores"
    by blast
  moreover have "fst ` set scores = fst ` set team" using sc(2) by (metis set_map)
  ultimately show ?thesis using sc sm
    by (simp add: hybridAssignment_def Let_def)
qed

lemma distributeTask_member:
  assumes "team \<noteq> []" and ty: "task_type t = Some ty"
  shows "\<exists>n. fst (distributeTask team svc t ex strategy) = Inr (Some n) \<and> n \<in> fst ` set team"
proof -
  obtain m svc' where rr: "roundRobinAssignment team svc = (m, svc')"
    by (cases "roundRobinAssignment team svc")
  with roundRobin_member[OF assms(1), of svc]
  have 1: "\<exists>n. m = Some n \<and> n \<in> fst ` set team" by simp
  show ?thesis
    unfolding distributeTask_def Let_def
    using 1 rr loadBalanced_member[OF assms(1), of ex]
      specialtyFirst_member[OF assms, of ex] priorityWeighted_member[OF assms, of ex]
      hybrid_member[OF assms, of ex]
    by simp
qed

section \<open>Facts about the dispatch and the empty roster\<close>

lemma analyze_Nil: "analyzeCurrentWorkload [] ex = []"
  by (simp add: analyzeCurrentWorkload_def)

lemma strategy_names_distinct:
  "ROUND_ROBIN \<noteq> LOAD_BALANCED" "ROUND_ROBIN \<noteq> SPECIALTY_FIRST" "ROUND_ROBIN \<noteq> PRIORITY_WEIGHTED"
  "ROUND_ROBIN \<noteq> HYBRID" "LOAD_BALANCED \<noteq> SPECIALTY_FIRST" "LOAD_BALANCED \<noteq> PRIORITY_WEIGHTED"
  "LOAD_BALANCED \<noteq> HYBRID" "SPECIALTY_FIRST \<noteq> PRIORITY_WEIGHTED" "SPECIALTY_FIRST \<noteq> HYBRID"
  "PRIORITY_WEIGHTED \<noteq> HYBRID"
  by (simp_all add: ROUND_ROBIN_def LOAD_BALANCED_def SPECIALTY_FIRST_def PRIORITY_WEIGHTED_def HYBRID_def)

lemma strategy_names_nonempty:
  "ROUND_ROBIN \<noteq> []" "LOAD_BALANCED \<noteq> []" "SPECIALTY_FIRST \<noteq> []" "PRIORITY_WEIGHTED \<noteq> []" "HYBRID \<noteq> []"
  by (simp_all add: ROUND_ROBIN_def LOAD_BALANCED_def SPECIALTY_FIRST_def PRIORITY_WEIGHTED_def HYBRID_def)

lemma loadBalanced_empty: "loadBalancedAssignment [] ex = Inl TypeError"
  by (simp add: loadBalancedAssignment_def analyze_Nil getAvailableMembers_def
      getLeastLoadedMember_def firstName_def)

lemma specialtyFirst_empty: "specialtyFirstAssignment [] t ex = Inl TypeError"
  by (simp add: specialtyFirstAssignment_def findSpecialtyMatches_empty loadBalanced_empty)

lemma priorityWeighted_empty: "priorityWeightedAssignment [] t ex = Inr None"
  by (simp add: priorityWeightedAssignment_def calculateMemberScores_def bestScored_Nil)

lemma hybrid_empty: "hybridAssignment [] t ex = Inr None"
  by (simp add: hybridAssignment_def findSpecialtyMatches_empty bestScored_Nil)

lemma distributeTask_default:
  "activeStrategy svc strategy \<notin> {ROUND_ROBIN, LOAD_BALANCED, SPECIALTY_FIRST, PRIORITY_WEIGHTED} \<Longrightarrow>
   distributeTask team svc t ex strategy = (hybridAssignment team t ex, svc)"
  by (simp add: distributeTask_def Let_def)

lemma distributeTask_hybrid:
  "distributeTask team svc t ex (Some HYBRID) = (hybridAssignment team t ex, svc)"
  using strategy_names_distinct strategy_names_nonempty
  by (intro distributeTask_default) (auto simp: activeStrategy_def)

section \<open>Descriptors that are scored alike\<close>

lemma collectMatches_cong:
  assumes "\<And>m d. specialtyPushes t m d = specialtyPushes t' m d"
  shows "collectMatches team t acc = collectMatches team t' acc"
  by (induction team arbitrary: acc) (auto simp: assms split: sum.splits)

lemma findSpecialtyMatches_cong:
  assumes "task_type t = task_type t'" "premiumAtLeast t 5000 = premiumAtLeast t' 5000"
  shows "findSpecialtyMatches team t = findSpecialtyMatches team t'"
proof -
  have "\<And>m d. specialtyPushes t m d = specialtyPushes t' m d"
    unfolding specialtyPushes_def assms ..
  then have "\<And>acc. collectMatches team t acc = collectMatches team t' acc"
    by (rule collectMatches_cong)
  then show ?thesis unfolding findSpecialtyMatches_def by simp
qed

lemma hybridScores_cong:
  assumes "\<And>m w sp. hybridScore m t w sp = hybridScore m t' w sp"
  shows "hybridScores rest wa sm t = hybridScores rest wa sm t'"
  by (induction rest) (auto simp: assms split: option.splits sum.splits)

lemma memberScoresLoop_cong:
  assumes "findSpecialtyMatches team t = findSpecialtyMatches team t'"
    "(priority t = Some ''high'') = (priority t' = Some ''high'')"
    "premiumAtLeast t 5000 = premiumAtLeast t' 5000"
  shows "memberScoresLoop team rest t wa = memberScoresLoop team rest t' wa"
  by (induction rest) (auto simp: assms Let_def split: option.splits sum.splits)

lemma distributeTask_cong:
  assumes ty: "task_type t = task_type t'"
    and pr: "premiumAtLeast t 5000 = premiumAtLeast t' 5000"
    and hi: "(priority t = Some ''high'') = (priority t' = Some ''high'')"
    and mu: "getPriorityMultiplier (priority t) = getPriorityMultiplier (priority t')"
  shows "distributeTask team svc t ex strategy = distributeTask team svc t' ex strategy"
proof -
  have fm: "findSpecialtyMatches team t = findSpecialtyMatches team t'"
    using ty pr by (rule findSpecialtyMatches_cong)
  have hs: "\<And>m w sp. hybridScore m t w sp = hybridScore m t' w sp"
    using pr mu by (simp add: hybridScore_def highValueBonus_def)
  have hsc: "\<And>rest wa sm. hybridScores rest wa sm t = hybridScores rest wa sm t'"
    using hs by (rule hybridScores_cong)
  have h1: "hybridAssignment team t ex = hybridAssignment team t' ex"
    unfolding hybridAssignment_def fm hsc ..
  have h2: "priorityWeightedAssignment team t ex = priorityWeightedAssignment team t' ex"
    unfolding priorityWeightedAssignment_def calculateMemberScores_def
      memberScoresLoop_cong[OF fm hi pr] ..
  have h3: "specialtyFirstAssignment team t ex = specialtyFirstAssignment team t' ex"
    unfolding specialtyFirstAssignment_def fm ..
  show ?thesis unfolding distributeTask_def h1 h2 h3 ..
qed

section \<open>Facts about the workload entries, the hybrid score and the balance score\<close>

lemma hybridScore_factored:
  "hybridScore member t w sp =
     (max 0 (100 - utilizationPercent w) + (if sp then 50 else 0)
        + (if highValueBonus member t then 30 else 0))
     * getPriorityMultiplier (priority t)
     * (if utilizationPercent w > 100 then 0.5 else 1)
     * (if utilizationPercent w > 150 then 0.3 else 1)"
  by (simp add: hybridScore_def Let_def)

lemma analyzeMember_fields:
  "assigned (analyzeMember m d ex) = int (length (memberTasksOf m ex))"
  "capacity (analyzeMember m d ex) = capacity d"
  "utilizationPercent (analyzeMember m d ex)
     = real_of_int (int (length (memberTasksOf m ex))) / real_of_int (capacity d) * 100"
  "available (analyzeMember m d ex) = max 0 (capacity d - int (length (memberTasksOf m ex)))"
  by (simp_all add: analyzeMember_def Let_def)

lemma analyze_lookup_distinct:
  "distinct (map fst team) \<Longrightarrow> (m, d) \<in> set team \<Longrightarrow>
   map_of (analyzeCurrentWorkload team ex) m = Some (analyzeMember m d ex)"
  by (simp add: analyze_lookup)

lemma RETENTION_TEAM_distinct: "distinct (map fst RETENTION_TEAM)"
  by (simp add: RETENTION_TEAM_def)

lemma RETENTION_TEAM_capacity: "(m, d) \<in> set RETENTION_TEAM \<Longrightarrow> 0 < capacity d"
  by (auto simp: RETENTION_TEAM_def)

lemma getPriorityMultiplier_pos: "0 < getPriorityMultiplier p"
  by (simp add: getPriorityMultiplier_def)

lemma foldl_add: "foldl (\<lambda>sum u. sum + f u) a us = a + sum_list (map f us)" for a :: real
  by (induction us arbitrary: a) simp_all

lemma calculateBalanceScore_eq:
  "wa \<noteq> [] \<Longrightarrow>
   calculateBalanceScore wa = Some (max 0 (100 - stddev (map (\<lambda>m. utilizationPercent (snd m)) wa)))"
proof -
  assume "wa \<noteq> []"
  have 1: "foldl (\<lambda>sum u. sum + u) 0 us = sum_list us" for us :: "real list"
    using foldl_add[of "\<lambda>u. u" 0 us] by simp
  have 2: "foldl (\<lambda>sum u. sum + (u - c) ^ 2) 0 us = sum_list (map (\<lambda>u. (u - c) ^ 2) us)"
    for us :: "real list" and c
    using foldl_add[of "\<lambda>u. (u - c) ^ 2" 0 us] by simp
  show ?thesis using \<open>wa \<noteq> []\<close>
    by (simp add: calculateBalanceScore_def Let_def 1 2 stddev_def mean_def comp_def)
qed

lemma near_util: "utilizationPercent (analyzeMember ''Monica Archuleta'' monicaData nearCriticalTasks) = 145"
  by (simp add: analyzeMember_def memberTasksOf_def nearCriticalTasks_def openTask_def monicaData_def Let_def)

lemma crit_util: "utilizationPercent (analyzeMember ''Monica Archuleta'' monicaData criticalTasks) = 155"
  by (simp add: analyzeMember_def memberTasksOf_def criticalTasks_def openTask_def monicaData_def Let_def)

lemma utilizations_analysis:
  "map (\<lambda>m. utilizationPercent (snd m)) (analyzeCurrentWorkload team ex)
     = map (\<lambda>(m, d). real (length (memberTasksOf m ex)) / real_of_int (capacity d) * 100) team"
  by (induction team) (auto simp: analyzeCurrentWorkload_def analyzeMember_def Let_def)

section \<open>Facts about the redistribution engine\<close>

lemma set_insertBy: "set (insertBy cmp x xs) = insert x (set xs)"
  by (induction xs) (auto split: option.splits)

lemma set_sortBy: "set (sortBy cmp xs) = set xs"
  by (induction xs) (simp_all add: sortBy_def set_insertBy)

lemma set_slice0: "set (slice0 xs e) \<subseteq> set xs"
  by (auto simp: slice0_def dest: in_set_takeD)

lemma length_slice0: "0 \<le> e \<Longrightarrow> int (length (slice0 xs e)) \<le> e"
  by (simp add: slice0_def)

lemma map_of_adjust:
  "map_of (map (\<lambda>(k', w). if k' = k then (k', f w) else (k', w)) wa) k''
     = (if k'' = k then map_option f (map_of wa k) else map_of wa k'')"
  by (induction wa) auto

lemma keys_adjust:
  "map fst (map (\<lambda>(k', w). if k' = k then (k', f w) else (k', w)) wa) = map fst wa"
  by (induction wa) auto

lemma adjustAssigned_Inr:
  "adjustAssigned wa k d = Inr wa' \<Longrightarrow>
     map fst wa' = map fst wa \<and> (\<forall>k'. k' \<noteq> k \<longrightarrow> map_of wa' k' = map_of wa k')"
  by (auto simp: adjustAssigned_def map_of_adjust keys_adjust split: option.splits)

lemma adjustAssigned_total:
  "k \<in> fst ` set wa \<Longrightarrow> \<exists>wa'. adjustAssigned wa k d = Inr wa'"
  by (auto simp: adjustAssigned_def dom_map_of_conv_image_fst[symmetric] split: option.splits)

lemma findBest_target:
  "findBestRedistributionTarget team t ul wa = Inr (Some tgt) \<Longrightarrow> tgt \<in> set ul"
proof -
  assume a: "findBestRedistributionTarget team t ul wa = Inr (Some tgt)"
  then obtain sm where sm: "findSpecialtyMatches team t = Inr sm"
    by (auto simp: findBestRedistributionTarget_def split: sum.splits)
  show ?thesis
  proof (cases "filter (\<lambda>m. m \<in> set sm) ul")
    case Nil
    then show ?thesis using a sm
      by (auto simp: findBestRedistributionTarget_def split: list.splits)
  next
    case (Cons s ss)
    then have "s \<in> set (filter (\<lambda>m. m \<in> set sm) ul)" by simp
    then have "s \<in> set ul" by simp
    then show ?thesis using a sm Cons by (simp add: findBestRedistributionTarget_def)
  qed
qed

lemma findBest_total:
  "task_type t = Some ty \<Longrightarrow> \<exists>r. findBestRedistributionTarget team t ul wa = Inr r"
  using findSpecialtyMatches_typed[of t ty team]
  by (auto simp: findBestRedistributionTarget_def split: list.splits)

lemma moveTasks_props:
  "moveTasks team ul src ts (wa, reds) = Inr (wa', reds') \<Longrightarrow>
   \<exists>new. reds' = reds @ new \<and> length new \<le> length ts \<and>
         (\<forall>r \<in> set new. from_member r = src \<and> taskId r \<in> task_id ` set ts \<and> to_member r \<in> set ul) \<and>
         map fst wa' = map fst wa \<and>
         (\<forall>k. k \<noteq> src \<and> k \<notin> set ul \<longrightarrow> map_of wa' k = map_of wa k)"
proof (induction ts arbitrary: wa reds)
  case Nil
  then show ?case by simp
next
  case (Cons t ts)
  from Cons.prems obtain tgt where fb: "findBestRedistributionTarget team t ul wa = Inr tgt"
    by (auto split: sum.splits)
  have skip: ?case if "moveTasks team ul src ts (wa, reds) = Inr (wa', reds')"
  proof -
    from Cons.IH[OF that] obtain new where n: "reds' = reds @ new" "length new \<le> length ts"
      "\<forall>r \<in> set new. from_member r = src \<and> taskId r \<in> task_id ` set ts \<and> to_member r \<in> set ul"
      "map fst wa' = map fst wa" "\<forall>k. k \<noteq> src \<and> k \<notin> set ul \<longrightarrow> map_of wa' k = map_of wa k"
      by blast
    show ?thesis
      apply (rule exI[of _ new]) using n by auto
  qed
  consider "tgt = None \<or> tgt = Some []" | bestTarget where "tgt = Some bestTarget" "bestTarget \<noteq> []"
    by (cases tgt) auto
  then show ?case
  proof cases
    case 1
    with Cons.prems fb have "moveTasks team ul src ts (wa, reds) = Inr (wa', reds')" by auto
    then show ?thesis by (rule skip)
  next
    case 2
    note Some = 2
    with fb have tgt: "bestTarget \<in> set ul" by (auto dest: findBest_target)
    from Cons.prems fb Some obtain wa1 where a1: "adjustAssigned wa src (- 1) = Inr wa1"
      by (auto split: sum.splits)
    from Cons.prems fb Some a1 obtain wa2 where a2: "adjustAssigned wa1 bestTarget 1 = Inr wa2"
      by (auto split: sum.splits)
    let ?r = "\<lparr>taskId = task_id t, from_member = src, to_member = bestTarget,
               reason = ''Load balancing''\<rparr>"
    from Cons.prems fb Some a1 a2
    have "moveTasks team ul src ts (wa2, reds @ [?r]) = Inr (wa', reds')" by simp
    from Cons.IH[OF this] obtain new where n: "reds' = (reds @ [?r]) @ new" "length new \<le> length ts"
      "\<forall>r \<in> set new. from_member r = src \<and> taskId r \<in> task_id ` set ts \<and> to_member r \<in> set ul"
      "map fst wa' = map fst wa2" "\<forall>k. k \<noteq> src \<and> k \<notin> set ul \<longrightarrow> map_of wa' k = map_of wa2 k"
      by blast
    from adjustAssigned_Inr[OF a1] adjustAssigned_Inr[OF a2]
    have k: "map fst wa2 = map fst wa"
      "\<forall>k. k \<noteq> src \<and> k \<noteq> bestTarget \<longrightarrow> map_of wa2 k = map_of wa k" by auto
    show ?thesis
      apply (rule exI[of _ "?r # new"]) using n k tgt by auto
  qed
qed

lemma moveTasks_total:
  "\<forall>t \<in> set ts. task_type t \<noteq> None \<Longrightarrow> src \<in> fst ` set wa \<Longrightarrow> set ul \<subseteq> fst ` set wa \<Longrightarrow>
   \<exists>st. moveTasks team ul src ts (wa, reds) = Inr st"
proof (induction ts arbitrary: wa reds)
  case Nil
  then show ?case by simp
next
  case (Cons t ts)
  then obtain ty where "task_type t = Some ty" by auto
  from findBest_total[OF this, of team ul wa]
  obtain tgt where fb: "findBestRedistributionTarget team t ul wa = Inr tgt" by blast
  consider "tgt = None \<or> tgt = Some []" | bestTarget where "tgt = Some bestTarget" "bestTarget \<noteq> []"
    by (cases tgt) auto
  then show ?case
  proof cases
    case 1
    have "\<exists>st. moveTasks team ul src ts (wa, reds) = Inr st"
      by (rule Cons.IH) (use Cons.prems in auto)
    then show ?thesis using fb 1 by auto
  next
    case 2
    note Some = 2
    with fb have tgt: "bestTarget \<in> set ul" by (auto dest: findBest_target)
    from adjustAssigned_total[OF Cons.prems(2), of "- 1"]
    obtain wa1 where a1: "adjustAssigned wa src (- 1) = Inr wa1" by blast
    then have k1: "fst ` set wa1 = fst ` set wa" by (metis adjustAssigned_Inr set_map)
    then have "bestTarget \<in> fst ` set wa1" using tgt Cons.prems(3) by auto
    from adjustAssigned_total[OF this, of 1]
    obtain wa2 where a2: "adjustAssigned wa1 bestTarget 1 = Inr wa2" by blast
    then have k2: "fst ` set wa2 = fst ` set wa" using k1 by (metis adjustAssigned_Inr set_map)
    have "\<exists>st. moveTasks team ul src ts (wa2, reds @ [\<lparr>taskId = task_id t, from_member = src,
            to_member = bestTarget, reason = ''Load balancing''\<rparr>]) = Inr st"
      by (rule Cons.IH) (use Cons.prems k2 in auto)
    then show ?thesis using fb Some a1 a2 by simp
  qed
qed

lemma redistributeLoop_props:
  assumes "distinct ms" and "set ms \<inter> set ul = {}"
    and "\<forall>m \<in> set ms. \<exists>w. map_of wa m = Some w \<and> assigned w = int (length (memberTasksOf m ex))"
    and "redistributeLoop team ex ul ms (wa, reds) = Inr (wa', reds')"
  shows "\<exists>new. reds' = reds @ new \<and>
           (\<forall>r \<in> set new. from_member r \<in> set ms \<and>
                 taskId r \<in> task_id ` set (memberTasksOf (from_member r) ex)) \<and>
           (\<forall>m. int (length (filter (\<lambda>r. from_member r = m) new))
                  \<le> \<lfloor>real (length (memberTasksOf m ex)) * 0.2\<rfloor>)"
  using assms
proof (induction ms arbitrary: wa reds)
  case Nil
  then show ?case by simp
next
  case (Cons m ms)
  let ?n = "int (length (memberTasksOf m ex))"
  let ?k = "\<lfloor>real_of_int ?n * 0.2\<rfloor>"
  let ?sel = "slice0 (sortBy comparePriority (memberTasksOf m ex)) ?k"
  from Cons.prems(3) obtain w where w: "map_of wa m = Some w" "assigned w = ?n" by auto
  from Cons.prems(4) w obtain wa1 reds1 where
    mv: "moveTasks team ul m ?sel (wa, reds) = Inr (wa1, reds1)"
    and rest: "redistributeLoop team ex ul ms (wa1, reds1) = Inr (wa', reds')"
    by (auto simp: Let_def split: sum.splits)
  from moveTasks_props[OF mv] obtain new1 where n1: "reds1 = reds @ new1"
    "length new1 \<le> length ?sel"
    "\<forall>r \<in> set new1. from_member r = m \<and> taskId r \<in> task_id ` set ?sel \<and> to_member r \<in> set ul"
    "\<forall>k. k \<noteq> m \<and> k \<notin> set ul \<longrightarrow> map_of wa1 k = map_of wa k"
    by blast
  have inv: "\<forall>m' \<in> set ms. \<exists>w. map_of wa1 m' = Some w \<and> assigned w = int (length (memberTasksOf m' ex))"
  proof
    fix m' assume m': "m' \<in> set ms"
    then have "m' \<noteq> m" "m' \<notin> set ul" using Cons.prems(1,2) by auto
    then have "map_of wa1 m' = map_of wa m'" using n1(4) by simp
    then show "\<exists>w. map_of wa1 m' = Some w \<and> assigned w = int (length (memberTasksOf m' ex))"
      using Cons.prems(3) m' by simp
  qed
  have "distinct ms" "set ms \<inter> set ul = {}" using Cons.prems(1,2) by auto
  from Cons.IH[OF this inv rest] obtain new2 where n2: "reds' = reds1 @ new2"
    "\<forall>r \<in> set new2. from_member r \<in> set ms \<and>
         taskId r \<in> task_id ` set (memberTasksOf (from_member r) ex)"
    "\<forall>m'. int (length (filter (\<lambda>r. from_member r = m') new2))
            \<le> \<lfloor>real (length (memberTasksOf m' ex)) * 0.2\<rfloor>"
    by blast
  have sel: "set ?sel \<subseteq> set (memberTasksOf m ex)"
    using set_slice0[of "sortBy comparePriority (memberTasksOf m ex)" ?k] by (simp add: set_sortBy)
  have len1: "int (length new1) \<le> ?k"
    using n1(2) length_slice0[of ?k "sortBy comparePriority (memberTasksOf m ex)"] by simp
  have f1: "filter (\<lambda>r. from_member r = m) new1 = new1" using n1(3) by (simp add: filter_id_conv)
  have f1': "filter (\<lambda>r. from_member r = m') new1 = []" if "m' \<noteq> m" for m'
    using n1(3) that by (auto simp: filter_empty_conv)
  have f2: "filter (\<lambda>r. from_member r = m) new2 = []"
    using n2(2) Cons.prems(1) by (auto simp: filter_empty_conv)
  have cnt: "int (length (filter (\<lambda>r. from_member r = m') (new1 @ new2)))
               \<le> \<lfloor>real (length (memberTasksOf m' ex)) * 0.2\<rfloor>" for m'
  proof (cases "m' = m")
    case True
    then show ?thesis using f1 f2 len1 by simp
  next
    case False
    then show ?thesis using f1'[OF False] n2(3) by simp
  qed
  have s1: "\<forall>r \<in> set new1. from_member r = m \<and> taskId r \<in> task_id ` set (memberTasksOf m ex)"
    using n1(3) sel by blast
  have src: "\<forall>r \<in> set (new1 @ new2). from_member r \<in> set (m # ms) \<and>
                 taskId r \<in> task_id ` set (memberTasksOf (from_member r) ex)"
    using s1 n2(2) by auto
  show ?case
    apply (rule exI[of _ "new1 @ new2"]) using n1(1) n2(1) cnt src by simp
qed

lemma redistributeLoop_total:
  assumes "\<forall>t \<in> set ex. task_type t \<noteq> None"
  shows "set ms \<subseteq> fst ` set wa \<Longrightarrow> set ul \<subseteq> fst ` set wa \<Longrightarrow>
         \<exists>st. redistributeLoop team ex ul ms (wa, reds) = Inr st"
proof (induction ms arbitrary: wa reds)
  case Nil
  then show ?case by simp
next
  case (Cons m ms)
  then have mk: "m \<in> fst ` set wa" by simp
  then obtain w where w: "map_of wa m = Some w" by (metis domD dom_map_of_conv_image_fst)
  let ?sel = "slice0 (sortBy comparePriority (memberTasksOf m ex)) \<lfloor>real_of_int (assigned w) * 0.2\<rfloor>"
  have "set ?sel \<subseteq> set ex"
    using set_slice0[of "sortBy comparePriority (memberTasksOf m ex)" "\<lfloor>real_of_int (assigned w) * 0.2\<rfloor>"]
    by (auto simp: set_sortBy memberTasksOf_def)
  then have "\<forall>t \<in> set ?sel. task_type t \<noteq> None" using assms by blast
  from moveTasks_total[OF this mk Cons.prems(2), of team reds]
  obtain wa1 reds1 where mv: "moveTasks team ul m ?sel (wa, reds) = Inr (wa1, reds1)" by force
  from moveTasks_props[OF mv] have "map fst wa1 = map fst wa" by blast
  then have "fst ` set wa1 = fst ` set wa" by (metis set_map)
  then have "\<exists>st. redistributeLoop team ex ul ms (wa1, reds1) = Inr st"
    using Cons.prems by (intro Cons.IH) auto
  then show ?case using w mv by (simp add: Let_def)
qed

lemma names_analysis: "map name (map snd (analyzeCurrentWorkload team ex)) = map fst team"
  by (induction team) (auto simp: analyzeCurrentWorkload_def analyzeMember_name)

lemma distinct_names_sorted_filter:
  assumes "distinct (map name ws)"
  shows "distinct (map name (sort_key f (filter P ws)))"
proof -
  have "distinct (map name (filter P ws))" using assms by (rule distinct_map_filter)
  then show ?thesis by (simp add: distinct_map)
qed

lemma overloadedOf_distinct:
  "distinct (map fst team) \<Longrightarrow> distinct (overloadedOf (analyzeCurrentWorkload team ex) x)"
  unfolding overloadedOf_def
  by (rule distinct_names_sorted_filter) (simp only: names_analysis)

lemma overloadedOf_iff:
  "m \<in> set (overloadedOf wa x) \<longleftrightarrow> (\<exists>w \<in> snd ` set wa. name w = m \<and> utilizationPercent w > 100 + x)"
  by (auto simp: overloadedOf_def)

lemma underloadedOf_iff:
  "m \<in> set (underloadedOf wa x) \<longleftrightarrow> (\<exists>w \<in> snd ` set wa. name w = m \<and> utilizationPercent w < 100 - x)"
  by (auto simp: underloadedOf_def)

lemma analysis_member_unique:
  assumes "distinct (map fst team)"
    and "w \<in> snd ` set (analyzeCurrentWorkload team ex)"
    and "w' \<in> snd ` set (analyzeCurrentWorkload team ex)" and "name w = name w'"
  shows "w = w'"
proof -
  from assms(2) obtain k where k: "(k, w) \<in> set (analyzeCurrentWorkload team ex)" by auto
  from assms(3) obtain k' where k': "(k', w') \<in> set (analyzeCurrentWorkload team ex)" by auto
  from analyze_entry[OF k] analyze_entry[OF k'] obtain d d' where
    d: "(k, d) \<in> set team" "w = analyzeMember k d ex" "(k', d') \<in> set team" "w' = analyzeMember k' d' ex"
    by blast
  then have "k = k'" using assms(4) by (simp add: analyzeMember_name)
  have "d = d'"
    by (rule eq_key_imp_eq_value[OF assms(1), of k]) (use d \<open>k = k'\<close> in simp_all)
  then show ?thesis using d \<open>k = k'\<close> by simp
qed

lemma over_under_disjoint:
  assumes "distinct (map fst team)" and "0 \<le> x"
  shows "set (overloadedOf (analyzeCurrentWorkload team ex) x)
           \<inter> set (underloadedOf (analyzeCurrentWorkload team ex) x) = {}"
proof -
  { fix m assume o: "m \<in> set (overloadedOf (analyzeCurrentWorkload team ex) x)"
      and u: "m \<in> set (underloadedOf (analyzeCurrentWorkload team ex) x)"
    from o obtain w where w: "w \<in> snd ` set (analyzeCurrentWorkload team ex)" "name w = m"
      "utilizationPercent w > 100 + x" unfolding overloadedOf_iff by blast
    from u obtain w' where w': "w' \<in> snd ` set (analyzeCurrentWorkload team ex)" "name w' = m"
      "utilizationPercent w' < 100 - x" unfolding underloadedOf_iff by blast
    have "w = w'" using analysis_member_unique[OF assms(1) w(1) w'(1)] w(2) w'(2) by simp
    then have False using w(3) w'(3) assms(2) by simp }
  then show ?thesis by blast
qed

lemma analysis_name_key:
  "w \<in> snd ` set (analyzeCurrentWorkload team ex) \<Longrightarrow> name w \<in> fst ` set team"
  by (force simp: analyzeCurrentWorkload_def analyzeMember_name)

lemma overloadedOf_keys: "set (overloadedOf (analyzeCurrentWorkload team ex) x) \<subseteq> fst ` set team"
proof
  fix m assume "m \<in> set (overloadedOf (analyzeCurrentWorkload team ex) x)"
  then obtain w where "w \<in> snd ` set (analyzeCurrentWorkload team ex)" "name w = m"
    unfolding overloadedOf_iff by blast
  then show "m \<in> fst ` set team" using analysis_name_key by blast
qed

lemma underloadedOf_keys: "set (underloadedOf (analyzeCurrentWorkload team ex) x) \<subseteq> fst ` set team"
proof
  fix m assume "m \<in> set (underloadedOf (analyzeCurrentWorkload team ex) x)"
  then obtain w where "w \<in> snd ` set (analyzeCurrentWorkload team ex)" "name w = m"
    unfolding underloadedOf_iff by blast
  then show "m \<in> fst ` set team" using analysis_name_key by blast
qed

lemma keys_analysis_set: "fst ` set (analyzeCurrentWorkload team ex) = fst ` set team"
  using analyze_keys[of team ex] by (metis set_map)

lemma redistributeTasks_props:
  assumes d: "distinct (map fst team)" and x: "0 \<le> x"
    and r: "redistributeTasks team ex x = Inr reds"
  shows "(\<forall>r \<in> set reds. from_member r \<in> set (overloadedOf (analyzeCurrentWorkload team ex) x) \<and>
              taskId r \<in> task_id ` set (memberTasksOf (from_member r) ex)) \<and>
         (\<forall>m. int (length (filter (\<lambda>r. from_member r = m) reds))
                \<le> \<lfloor>real (length (memberTasksOf m ex)) * 0.2\<rfloor>)"
proof -
  let ?wa = "analyzeCurrentWorkload team ex"
  let ?ol = "overloadedOf ?wa x"
  let ?ul = "underloadedOf ?wa x"
  from r obtain wa' where loop: "redistributeLoop team ex ?ul ?ol (?wa, []) = Inr (wa', reds)"
    by (auto simp: redistributeTasks_def Let_def split: sum.splits)
  have inv: "\<forall>m \<in> set ?ol. \<exists>w. map_of ?wa m = Some w \<and> assigned w = int (length (memberTasksOf m ex))"
  proof
    fix m assume "m \<in> set ?ol"
    then have "m \<in> fst ` set team" using overloadedOf_keys by blast
    then obtain dd where "map_of team m = Some dd" by (metis domD dom_map_of_conv_image_fst)
    then have "map_of ?wa m = Some (analyzeMember m dd ex)" by (simp add: analyze_lookup)
    then show "\<exists>w. map_of ?wa m = Some w \<and> assigned w = int (length (memberTasksOf m ex))"
      by (simp add: analyzeMember_def Let_def)
  qed
  from redistributeLoop_props[OF overloadedOf_distinct[OF d] over_under_disjoint[OF d x] inv loop]
  obtain new where "reds = [] @ new"
    "\<forall>r \<in> set new. from_member r \<in> set ?ol \<and>
                 taskId r \<in> task_id ` set (memberTasksOf (from_member r) ex)"
    "\<forall>m. int (length (filter (\<lambda>r. from_member r = m) new))
                  \<le> \<lfloor>real (length (memberTasksOf m ex)) * 0.2\<rfloor>"
    by blast
  then show ?thesis by simp
qed

lemma redistributeTasks_total:
  assumes "\<forall>t \<in> set ex. task_type t \<noteq> None"
  shows "\<exists>reds. redistributeTasks team ex x = Inr reds"
proof -
  let ?wa = "analyzeCurrentWorkload team ex"
  have "\<exists>st. redistributeLoop team ex (underloadedOf ?wa x) (overloadedOf ?wa x) (?wa, []) = Inr st"
    by (rule redistributeLoop_total[OF assms])
      (simp_all add: keys_analysis_set overloadedOf_keys underloadedOf_keys)
  then show ?thesis by (auto simp: redistributeTasks_def Let_def)
qed

lemma scenario_overloaded:
  assumes "a \<noteq> b" "capacity da = 10" "length (memberTasksOf a ex) = 20"
    "utilizationPercent (analyzeMember b db ex) = 10"
  shows "overloadedOf (analyzeCurrentWorkload [(a, da), (b, db)] ex) 50 = [a]"
proof -
  have "utilizationPercent (analyzeMember a da ex) = 200"
    using assms(2,3) by (simp add: analyzeMember_def Let_def)
  then show ?thesis using assms(4)
    by (simp add: overloadedOf_def analyzeCurrentWorkload_def analyzeMember_name)
qed

section \<open>Claims\<close>

subsection \<open>C1: the high-value bonus of the hybrid strategy\<close>

text \<open>
  C1. Over the configured roster the name-based check of the source and the attribute-based
  rule select the same members for the bonus of 30, for every task: for every roster
  entry, the member is ``Mark Vallejo'' and the premium is at least 5000 exactly when the
  member's declared specialties include \<open>high-value\<close> and the premium is at least 5000;
  hence the hybrid score of the source equals the score computed by the attribute-based
  rule, for every workload entry and specialty flag.
\<close>

theorem C1_high_value_bonus:
  "(member, data) \<in> set RETENTION_TEAM \<Longrightarrow>
     (highValueBonus member t
        \<longleftrightarrow> ''high-value'' \<in> set (specialties data) \<and> premiumAtLeast t 5000) \<and>
     hybridScore member t w isSpecialist = hybridScore_spec data t w isSpecialist"
proof -
  assume m: "(member, data) \<in> set RETENTION_TEAM"
  then have eq: "highValueBonus member t
        \<longleftrightarrow> ''high-value'' \<in> set (specialties data) \<and> premiumAtLeast t 5000"
    by (auto simp: RETENTION_TEAM_def highValueBonus_def)
  show ?thesis
    unfolding hybridScore_factored hybridScore_spec_def using eq by simp
qed

text \<open>
  Instance of C1 at the roster entry of Mark Vallejo and a premium of 6000.
\<close>

theorem C1_high_value_bonus_witness:
  "(''Mark Vallejo'', markData) \<in> set RETENTION_TEAM \<and>
   highValueBonus ''Mark Vallejo'' (nsfTask\<lparr>premium := Some 6000\<rparr>) \<and>
   hybridScore ''Mark Vallejo'' (nsfTask\<lparr>premium := Some 6000\<rparr>)
       (analyzeMember ''Mark Vallejo'' markData []) True
     = hybridScore_spec markData (nsfTask\<lparr>premium := Some 6000\<rparr>)
         (analyzeMember ''Mark Vallejo'' markData []) True"
proof -
  have h: "(''Mark Vallejo'', markData) \<in> set RETENTION_TEAM"
    by (simp add: RETENTION_TEAM_def markData_def)
  from C1_high_value_bonus[OF h, of "nsfTask\<lparr>premium := Some 6000\<rparr>"
      "analyzeMember ''Mark Vallejo'' markData []" True]
  show ?thesis using h by (simp add: premiumAtLeast_def nsfTask_def markData_def)
qed

subsection \<open>C2: missing task fields\<close>

text \<open>
  C2 (as amended). For every strategy, every state of the service and every snapshot, a
  task with missing premium is scored and assigned as the same task with premium 0, and a
  task with missing priority as the same task with priority \<open>medium\<close>, with multiplier
  1 and no high-priority bonus (for every roster); and for the configured roster no
  strategy throws for a task whose type is present.
\<close>

theorem C2_missing_fields:
  "distributeTask team svc (t\<lparr>premium := None\<rparr>) existingTasks strategy
     = distributeTask team svc (t\<lparr>premium := Some 0\<rparr>) existingTasks strategy \<and>
   distributeTask team svc (t\<lparr>priority := None\<rparr>) existingTasks strategy
     = distributeTask team svc (t\<lparr>priority := Some ''medium''\<rparr>) existingTasks strategy \<and>
   hybridScore member (t\<lparr>premium := None\<rparr>) w isSpecialist
     = hybridScore member (t\<lparr>premium := Some 0\<rparr>) w isSpecialist \<and>
   hybridScore member (t\<lparr>priority := None\<rparr>) w isSpecialist
     = hybridScore member (t\<lparr>priority := Some ''medium''\<rparr>) w isSpecialist \<and>
   calculateMemberScores team (t\<lparr>premium := None\<rparr>) workloadAnalysis
     = calculateMemberScores team (t\<lparr>premium := Some 0\<rparr>) workloadAnalysis \<and>
   calculateMemberScores team (t\<lparr>priority := None\<rparr>) workloadAnalysis
     = calculateMemberScores team (t\<lparr>priority := Some ''medium''\<rparr>) workloadAnalysis \<and>
   getPriorityMultiplier None = 1 \<and>
   (task_type t \<noteq> None \<longrightarrow>
      fst (distributeTask RETENTION_TEAM svc t existingTasks strategy) \<noteq> Inl e)"
proof (intro conjI impI)
  show "distributeTask team svc (t\<lparr>premium := None\<rparr>) existingTasks strategy
     = distributeTask team svc (t\<lparr>premium := Some 0\<rparr>) existingTasks strategy"
    by (rule distributeTask_cong) (simp_all add: premiumAtLeast_def)
  show "distributeTask team svc (t\<lparr>priority := None\<rparr>) existingTasks strategy
     = distributeTask team svc (t\<lparr>priority := Some ''medium''\<rparr>) existingTasks strategy"
    by (rule distributeTask_cong) (simp_all add: premiumAtLeast_def getPriorityMultiplier_def)
  show "hybridScore member (t\<lparr>premium := None\<rparr>) w isSpecialist
     = hybridScore member (t\<lparr>premium := Some 0\<rparr>) w isSpecialist"
    by (simp add: hybridScore_factored highValueBonus_def premiumAtLeast_def)
  show "hybridScore member (t\<lparr>priority := None\<rparr>) w isSpecialist
     = hybridScore member (t\<lparr>priority := Some ''medium''\<rparr>) w isSpecialist"
    by (simp add: hybridScore_factored highValueBonus_def premiumAtLeast_def
        getPriorityMultiplier_def)
  show "calculateMemberScores team (t\<lparr>premium := None\<rparr>) workloadAnalysis
     = calculateMemberScores team (t\<lparr>premium := Some 0\<rparr>) workloadAnalysis"
    unfolding calculateMemberScores_def
    by (rule memberScoresLoop_cong)
      (simp_all add: premiumAtLeast_def findSpecialtyMatches_cong[of "t\<lparr>premium := None\<rparr>"
          "t\<lparr>premium := Some 0\<rparr>"])
  show "calculateMemberScores team (t\<lparr>priority := None\<rparr>) workloadAnalysis
     = calculateMemberScores team (t\<lparr>priority := Some ''medium''\<rparr>) workloadAnalysis"
    unfolding calculateMemberScores_def
    by (rule memberScoresLoop_cong)
      (simp_all add: premiumAtLeast_def findSpecialtyMatches_cong[of "t\<lparr>priority := None\<rparr>"
          "t\<lparr>priority := Some ''medium''\<rparr>"])
  show "getPriorityMultiplier None = 1" by (simp add: getPriorityMultiplier_def)
next
  assume "task_type t \<noteq> None"
  then obtain ty where "task_type t = Some ty" by auto
  from distributeTask_member[OF _ this, of RETENTION_TEAM svc existingTasks strategy]
  show "fst (distributeTask RETENTION_TEAM svc t existingTasks strategy) \<noteq> Inl e"
    by (auto simp: RETENTION_TEAM_def)
qed

text \<open>
  Instance of C2 at a task of type \<open>nsf\<close> under the hybrid strategy.
\<close>

theorem C2_missing_fields_witness:
  "task_type nsfTask \<noteq> None \<and>
   fst (distributeTask RETENTION_TEAM new_service nsfTask [] (Some HYBRID)) \<noteq> Inl TypeError \<and>
   distributeTask RETENTION_TEAM new_service (nsfTask\<lparr>premium := None\<rparr>) [] (Some HYBRID)
     = distributeTask RETENTION_TEAM new_service (nsfTask\<lparr>premium := Some 0\<rparr>) [] (Some HYBRID)"
proof -
  have h: "task_type nsfTask \<noteq> None" by (simp add: nsfTask_def)
  from C2_missing_fields[of RETENTION_TEAM new_service nsfTask "[]" "Some HYBRID" _ _ _ _
      TypeError]
  show ?thesis using h by blast
qed

text \<open>
  C2, the claim as stated, fails for a task whose type is absent: under the hybrid strategy
  the specialty matcher reads \<^verbatim>\<open>task.type.includes\<close> and the call throws.
\<close>

theorem C2_counterexample:
  "fst (distributeTask RETENTION_TEAM new_service untypedTask [] (Some HYBRID)) = Inl TypeError"
  by code_simp

subsection \<open>C3: the empty roster\<close>

text \<open>
  C3 (as amended). With an empty roster, round-robin, priority-weighted and hybrid return
  \<^verbatim>\<open>undefined\<close> without failing, and load-balanced and specialty-first fail with the
  \<^verbatim>\<open>TypeError\<close> of reading \<^verbatim>\<open>[0].name\<close> of an empty array; there is no error of
  its own for the empty roster.
\<close>

theorem C3_empty_roster:
  "fst (distributeTask [] svc t existingTasks (Some ROUND_ROBIN)) = Inr None \<and>
   fst (distributeTask [] svc t existingTasks (Some LOAD_BALANCED)) = Inl TypeError \<and>
   fst (distributeTask [] svc t existingTasks (Some SPECIALTY_FIRST)) = Inl TypeError \<and>
   fst (distributeTask [] svc t existingTasks (Some PRIORITY_WEIGHTED)) = Inr None \<and>
   fst (distributeTask [] svc t existingTasks (Some HYBRID)) = Inr None"
  using strategy_names_distinct strategy_names_nonempty
  by (simp add: distributeTask_def activeStrategy_def roundRobinAssignment_def Let_def
      loadBalanced_empty specialtyFirst_empty priorityWeighted_empty hybrid_empty)

text \<open>
  C3, the claim as stated, fails for round-robin: with an empty roster it returns
  \<^verbatim>\<open>undefined\<close> to the caller instead of failing.
\<close>

theorem C3_counterexample:
  "fst (distributeTask [] new_service nsfTask [] (Some ROUND_ROBIN)) = Inr None"
  by code_simp

subsection \<open>C4: every strategy returns a roster member\<close>

text \<open>
  C4 (as amended). For the configured roster, every task descriptor whose type is present,
  every snapshot of existing tasks, every state of the service and every strategy
  argument, \<open>distributeTask\<close> returns exactly one name, and that name is a key of the
  roster.
\<close>

theorem C4_returns_roster_member:
  "task_type t = Some ty \<Longrightarrow>
   \<exists>n. fst (distributeTask RETENTION_TEAM svc t existingTasks strategy) = Inr (Some n)
       \<and> n \<in> fst ` set RETENTION_TEAM"
  by (rule distributeTask_member) (simp_all add: RETENTION_TEAM_def)

text \<open>
  Instance of C4 at a task of type \<open>nsf\<close> under the priority-weighted strategy.
\<close>

theorem C4_returns_roster_member_witness:
  "task_type nsfTask = Some ''nsf'' \<and>
   (\<exists>n. fst (distributeTask RETENTION_TEAM new_service nsfTask [] (Some PRIORITY_WEIGHTED))
           = Inr (Some n) \<and> n \<in> fst ` set RETENTION_TEAM)"
proof -
  have h: "task_type nsfTask = Some ''nsf''" by (simp add: nsfTask_def)
  from C4_returns_roster_member[OF h] show ?thesis using h by blast
qed

text \<open>
  C4, the claim as stated, fails for a descriptor without type: the priority-weighted
  strategy calls the specialty matcher, whose first statement reads
  \<^verbatim>\<open>task.type.includes\<close>, and the call ends in a \<^verbatim>\<open>TypeError\<close> instead of a name.
\<close>

theorem C4_counterexample:
  "fst (distributeTask RETENTION_TEAM new_service untypedTask [] (Some PRIORITY_WEIGHTED))
     = Inl TypeError"
  by code_simp

subsection \<open>C5: the workload analyzer\<close>

text \<open>
  C5. For every snapshot and every member of the configured roster, the analysis has an
  entry for the member with the member's capacity, \<open>assigned\<close> the number of the member's
  open tasks in the snapshot, \<open>utilizationPercent = assigned / capacity * 100\<close> and
  \<open>available = max 0 (capacity - assigned)\<close>; with no open task the utilization is 0 and
  \<open>available\<close> is the capacity; with more open tasks than capacity the utilization exceeds
  100 and \<open>available\<close> is 0.
\<close>

theorem C5_workload_stats:
  "(member, data) \<in> set RETENTION_TEAM \<Longrightarrow>
   \<exists>w. map_of (analyzeCurrentWorkload RETENTION_TEAM existingTasks) member = Some w \<and>
       capacity w = capacity data \<and>
       assigned w = int (length (filter (\<lambda>t. assignedTo t = Some member \<and> status t = Some ''open'')
                                   existingTasks)) \<and>
       utilizationPercent w = real_of_int (assigned w) / real_of_int (capacity w) * 100 \<and>
       available w = max 0 (capacity w - assigned w) \<and>
       (assigned w = 0 \<longrightarrow> utilizationPercent w = 0 \<and> available w = capacity w) \<and>
       (assigned w > capacity w \<longrightarrow> utilizationPercent w > 100 \<and> available w = 0)"
proof -
  assume m: "(member, data) \<in> set RETENTION_TEAM"
  let ?w = "analyzeMember member data existingTasks"
  have cap: "0 < capacity data" using m by (rule RETENTION_TEAM_capacity)
  have look: "map_of (analyzeCurrentWorkload RETENTION_TEAM existingTasks) member = Some ?w"
    using RETENTION_TEAM_distinct m by (rule analyze_lookup_distinct)
  have over: "utilizationPercent ?w > 100" if "assigned ?w > capacity ?w"
  proof -
    from that cap have "real_of_int (assigned ?w) / real_of_int (capacity ?w) > 1"
      by (simp add: analyzeMember_fields)
    then have "real_of_int (assigned ?w) / real_of_int (capacity ?w) * 100 > 1 * 100"
      by (rule mult_strict_right_mono) simp
    then show ?thesis by (simp add: analyzeMember_fields)
  qed
  show ?thesis
    apply (rule exI[of _ ?w])
    using look cap over
    by (simp add: analyzeMember_fields memberTasksOf_def)
qed

text \<open>
  Instances of C5 for Mark Vallejo (capacity 15): with no task, and with 16 open tasks.
\<close>

theorem C5_workload_stats_witness:
  "(''Mark Vallejo'', \<lparr>specialties = [''high-value'', ''commercial''], capacity = 15\<rparr>)
      \<in> set RETENTION_TEAM \<and>
   (\<exists>w. map_of (analyzeCurrentWorkload RETENTION_TEAM []) ''Mark Vallejo'' = Some w \<and>
        assigned w = 0 \<and> utilizationPercent w = 0 \<and> available w = 15) \<and>
   (\<exists>w. map_of (analyzeCurrentWorkload RETENTION_TEAM
                  (map (\<lambda>c. openTask [c] ''Mark Vallejo'') ''abcdefghijklmnop'')) ''Mark Vallejo''
          = Some w \<and>
        assigned w = 16 \<and> capacity w = 15 \<and> utilizationPercent w > 100 \<and> available w = 0)"
proof -
  have h: "(''Mark Vallejo'', \<lparr>specialties = [''high-value'', ''commercial''], capacity = 15\<rparr>)
      \<in> set RETENTION_TEAM" by (simp add: RETENTION_TEAM_def)
  have a: "length (filter (\<lambda>t. assignedTo t = Some ''Mark Vallejo'' \<and> status t = Some ''open'')
             (map (\<lambda>c. openTask [c] ''Mark Vallejo'') ''abcdefghijklmnop'')) = 16"
    by (simp add: openTask_def)
  from C5_workload_stats[OF h, of "[]"] C5_workload_stats[OF h,
      of "map (\<lambda>c. openTask [c] ''Mark Vallejo'') ''abcdefghijklmnop''"]
  show ?thesis using h unfolding a by fastforce
qed

subsection \<open>C6: the overload penalties of the hybrid strategy\<close>

text \<open>
  C6 (as amended). The overload penalties are multiplicative: the hybrid score is the sum of
  availability and bonuses, times the priority multiplier, times 0.5 above 100 percent and times
  0.15 (0.5 times 0.3) above 150 percent. For a member above 150 percent and the otherwise identical
  member above 100 percent and at most 150 percent, the first score is 0.3 times the second, never
  higher, and strictly lower exactly when the member has a specialty or high-value bonus
  (above 100 percent the availability term is 0, so without a bonus both scores are 0).
\<close>

theorem C6_overload_penalty:
  "hybridScore member t w isSpecialist =
     (max 0 (100 - utilizationPercent w) + (if isSpecialist then 50 else 0)
        + (if highValueBonus member t then 30 else 0))
     * getPriorityMultiplier (priority t)
     * (if utilizationPercent w > 150 then 0.15 else if utilizationPercent w > 100 then 0.5 else 1)
   \<and> (100 < utilizationPercent w \<and> utilizationPercent w \<le> 150 \<and> 150 < utilizationPercent w'
        \<longrightarrow> hybridScore member t w' isSpecialist = 0.3 * hybridScore member t w isSpecialist
          \<and> hybridScore member t w' isSpecialist \<le> hybridScore member t w isSpecialist
          \<and> (hybridScore member t w' isSpecialist < hybridScore member t w isSpecialist
               \<longleftrightarrow> isSpecialist \<or> highValueBonus member t))"
proof (intro conjI impI)
  show "hybridScore member t w isSpecialist =
     (max 0 (100 - utilizationPercent w) + (if isSpecialist then 50 else 0)
        + (if highValueBonus member t then 30 else 0))
     * getPriorityMultiplier (priority t)
     * (if utilizationPercent w > 150 then 0.15 else if utilizationPercent w > 100 then 0.5 else 1)"
    by (simp add: hybridScore_factored)
next
  assume u: "100 < utilizationPercent w \<and> utilizationPercent w \<le> 150 \<and> 150 < utilizationPercent w'"
  define b :: real where "b = (if isSpecialist then 50 else 0) + (if highValueBonus member t then 30 else 0)"
  define p where "p = getPriorityMultiplier (priority t)"
  have p: "0 < p" by (simp add: p_def getPriorityMultiplier_pos)
  have s: "hybridScore member t w isSpecialist = b * p * 0.5"
    using u by (simp add: hybridScore_factored b_def p_def)
  have s': "hybridScore member t w' isSpecialist = b * p * 0.15"
    using u by (simp add: hybridScore_factored b_def p_def)
  have b0: "0 \<le> b" by (simp add: b_def)
  have bp: "0 \<le> b * p" using b0 p by simp
  show "hybridScore member t w' isSpecialist = 0.3 * hybridScore member t w isSpecialist"
    by (simp add: s s')
  show "hybridScore member t w' isSpecialist \<le> hybridScore member t w isSpecialist"
    using bp by (simp add: s s')
  have "b * p * 0.15 < b * p * 0.5 \<longleftrightarrow> 0 < b * p" by simp
  also have "\<dots> \<longleftrightarrow> 0 < b" using p by (simp add: zero_less_mult_iff)
  also have "\<dots> \<longleftrightarrow> isSpecialist \<or> highValueBonus member t" by (simp add: b_def)
  finally show "hybridScore member t w' isSpecialist < hybridScore member t w isSpecialist
               \<longleftrightarrow> isSpecialist \<or> highValueBonus member t"
    by (simp add: s s')
qed

text \<open>
  Instance of C6: Monica Archuleta as a specialist for a task of type \<open>nsf\<close>, with 29
  and with 31 open tasks.
\<close>

theorem C6_overload_penalty_witness:
  "(100 < utilizationPercent (analyzeMember ''Monica Archuleta'' monicaData nearCriticalTasks) \<and>
    utilizationPercent (analyzeMember ''Monica Archuleta'' monicaData nearCriticalTasks) \<le> 150 \<and>
    150 < utilizationPercent (analyzeMember ''Monica Archuleta'' monicaData criticalTasks)) \<and>
   hybridScore ''Monica Archuleta'' nsfTask
       (analyzeMember ''Monica Archuleta'' monicaData criticalTasks) True
     < hybridScore ''Monica Archuleta'' nsfTask
       (analyzeMember ''Monica Archuleta'' monicaData nearCriticalTasks) True"
proof -
  have h: "100 < utilizationPercent (analyzeMember ''Monica Archuleta'' monicaData nearCriticalTasks) \<and>
    utilizationPercent (analyzeMember ''Monica Archuleta'' monicaData nearCriticalTasks) \<le> 150 \<and>
    150 < utilizationPercent (analyzeMember ''Monica Archuleta'' monicaData criticalTasks)"
    by (simp add: near_util crit_util)
  from C6_overload_penalty[of "''Monica Archuleta''" nsfTask
      "analyzeMember ''Monica Archuleta'' monicaData nearCriticalTasks" True
      "analyzeMember ''Monica Archuleta'' monicaData criticalTasks"]
  show ?thesis using h by blast
qed

text \<open>
  C6, the claim as stated, fails for a member without bonus: for a task of type
  \<open>cancellation\<close> Monica Archuleta is no specialty match, and her score is 0 with 29 open
  tasks (145 percent) and 0 with 31 (155 percent), so crossing 150 percent does not lower
  it.
\<close>

theorem C6_counterexample:
  "(''Monica Archuleta'', monicaData) \<in> set RETENTION_TEAM \<and>
   findSpecialtyMatches RETENTION_TEAM (nsfTask\<lparr>task_type := Some ''cancellation''\<rparr>)
     = Inr [''Stephen Brown''] \<and>
   utilizationPercent (analyzeMember ''Monica Archuleta'' monicaData nearCriticalTasks) = 145 \<and>
   utilizationPercent (analyzeMember ''Monica Archuleta'' monicaData criticalTasks) = 155 \<and>
   hybridScore ''Monica Archuleta'' (nsfTask\<lparr>task_type := Some ''cancellation''\<rparr>)
     (analyzeMember ''Monica Archuleta'' monicaData nearCriticalTasks) False = 0 \<and>
   hybridScore ''Monica Archuleta'' (nsfTask\<lparr>task_type := Some ''cancellation''\<rparr>)
     (analyzeMember ''Monica Archuleta'' monicaData criticalTasks) False = 0"
proof -
  have 1: "(''Monica Archuleta'', monicaData) \<in> set RETENTION_TEAM"
    by (simp add: RETENTION_TEAM_def monicaData_def)
  have 2: "findSpecialtyMatches RETENTION_TEAM (nsfTask\<lparr>task_type := Some ''cancellation''\<rparr>)
     = Inr [''Stephen Brown'']"
    by code_simp
  have 3: "hybridScore ''Monica Archuleta'' (nsfTask\<lparr>task_type := Some ''cancellation''\<rparr>)
     (analyzeMember ''Monica Archuleta'' monicaData nearCriticalTasks) False = 0"
    by (simp add: hybridScore_factored near_util highValueBonus_def)
  have 4: "hybridScore ''Monica Archuleta'' (nsfTask\<lparr>task_type := Some ''cancellation''\<rparr>)
     (analyzeMember ''Monica Archuleta'' monicaData criticalTasks) False = 0"
    by (simp add: hybridScore_factored crit_util highValueBonus_def)
  show ?thesis using 1 2 3 4 near_util crit_util by blast
qed

subsection \<open>C7: the bound on proposed moves\<close>

text \<open>
  C7. For every roster with distinct names, every snapshot and every threshold
  \<open>maxImbalancePercent \<ge> 0\<close> (50 by default): every proposed move comes from an overloaded
  member and carries the id of one of that member's open tasks, and no member is the
  source of more than \<open>floor (assigned * 0.2)\<close> moves; the engine returns a list whenever
  every task of the snapshot has a type. In the scenario of a member of capacity 10 with
  20 open tasks and a second member at 10 percent, with threshold 50, there are at most 4 moves,
  all from the overloaded member.
\<close>

theorem C7_redistribution_bound:
  "(distinct (map fst team) \<and> 0 \<le> maxImbalancePercent \<and>
    redistributeTasks team existingTasks maxImbalancePercent = Inr reds \<longrightarrow>
      (\<forall>r \<in> set reds.
          from_member r \<in> set (overloadedOf (analyzeCurrentWorkload team existingTasks)
                                   maxImbalancePercent) \<and>
          (\<exists>t \<in> set existingTasks. task_id t = taskId r \<and> assignedTo t = Some (from_member r)
                \<and> status t = Some ''open'')) \<and>
      (\<forall>m. int (length (filter (\<lambda>r. from_member r = m) reds))
             \<le> \<lfloor>real (length (memberTasksOf m existingTasks)) * 0.2\<rfloor>)) \<and>
   ((\<forall>t \<in> set existingTasks. task_type t \<noteq> None) \<longrightarrow>
      (\<exists>rs. redistributeTasks team existingTasks maxImbalancePercent = Inr rs)) \<and>
   (a \<noteq> b \<and> capacity da = 10 \<and> length (memberTasksOf a existingTasks) = 20 \<and>
    utilizationPercent (analyzeMember b db existingTasks) = 10 \<and>
    redistributeTasks [(a, da), (b, db)] existingTasks 50 = Inr reds' \<longrightarrow>
      length reds' \<le> 4 \<and> (\<forall>r \<in> set reds'. from_member r = a))"
proof (intro conjI impI)
  assume h: "distinct (map fst team) \<and> 0 \<le> maxImbalancePercent \<and>
    redistributeTasks team existingTasks maxImbalancePercent = Inr reds"
  then have p: "(\<forall>r \<in> set reds. from_member r \<in> set (overloadedOf (analyzeCurrentWorkload team existingTasks) maxImbalancePercent) \<and>
              taskId r \<in> task_id ` set (memberTasksOf (from_member r) existingTasks)) \<and>
         (\<forall>m. int (length (filter (\<lambda>r. from_member r = m) reds))
                \<le> \<lfloor>real (length (memberTasksOf m existingTasks)) * 0.2\<rfloor>)"
    by (intro redistributeTasks_props) simp_all
  show "\<forall>r \<in> set reds.
          from_member r \<in> set (overloadedOf (analyzeCurrentWorkload team existingTasks)
                                   maxImbalancePercent) \<and>
          (\<exists>t \<in> set existingTasks. task_id t = taskId r \<and> assignedTo t = Some (from_member r)
                \<and> status t = Some ''open'')"
  proof
    fix r assume "r \<in> set reds"
    with p have 1: "from_member r \<in> set (overloadedOf (analyzeCurrentWorkload team existingTasks) maxImbalancePercent)"
      and 2: "taskId r \<in> task_id ` set (memberTasksOf (from_member r) existingTasks)" by auto
    from 2 obtain t where "t \<in> set (memberTasksOf (from_member r) existingTasks)" "task_id t = taskId r"
      by auto
    then have "\<exists>t \<in> set existingTasks. task_id t = taskId r \<and> assignedTo t = Some (from_member r)
                \<and> status t = Some ''open''" by (auto simp: memberTasksOf_def)
    with 1 show "from_member r \<in> set (overloadedOf (analyzeCurrentWorkload team existingTasks)
                                   maxImbalancePercent) \<and>
          (\<exists>t \<in> set existingTasks. task_id t = taskId r \<and> assignedTo t = Some (from_member r)
                \<and> status t = Some ''open'')" by simp
  qed
  show "\<forall>m. int (length (filter (\<lambda>r. from_member r = m) reds))
             \<le> \<lfloor>real (length (memberTasksOf m existingTasks)) * 0.2\<rfloor>"
    using p by simp
next
  assume "\<forall>t \<in> set existingTasks. task_type t \<noteq> None"
  then show "\<exists>rs. redistributeTasks team existingTasks maxImbalancePercent = Inr rs"
    by (rule redistributeTasks_total)
next
  assume h: "a \<noteq> b \<and> capacity da = 10 \<and> length (memberTasksOf a existingTasks) = 20 \<and>
    utilizationPercent (analyzeMember b db existingTasks) = 10 \<and>
    redistributeTasks [(a, da), (b, db)] existingTasks 50 = Inr reds'"
  then have ol: "overloadedOf (analyzeCurrentWorkload [(a, da), (b, db)] existingTasks) 50 = [a]"
    by (intro scenario_overloaded) simp_all
  have dd: "distinct (map fst [(a, da), (b, db)])" using h by simp
  have x: "(0::real) \<le> 50" by simp
  note q = redistributeTasks_props[OF dd x conjunct2[OF conjunct2[OF conjunct2[OF conjunct2[OF h]]]],
      unfolded ol]
  from q have p1: "\<forall>r \<in> set reds'. from_member r \<in> set [a]" by blast
  from q have p2: "int (length (filter (\<lambda>r. from_member r = a) reds'))
                \<le> \<lfloor>real (length (memberTasksOf a existingTasks)) * 0.2\<rfloor>" by blast
  note p = p1 p2
  then have f: "filter (\<lambda>r. from_member r = a) reds' = reds'" by (simp add: filter_id_conv)
  have "\<lfloor>real (length (memberTasksOf a existingTasks)) * 0.2\<rfloor> = 4" using h by simp
  then show "length reds' \<le> 4" using p(2) unfolding f by simp
  show "\<forall>r \<in> set reds'. from_member r = a" using p(1) by simp
qed

text \<open>
  Instance of C7 at the two-member scenario: the hypotheses hold and the engine returns at
  most 4 moves, all from \<open>A\<close>.
\<close>

theorem C7_redistribution_bound_witness:
  "distinct (map fst scenarioTeam) \<and> list_all (\<lambda>t. task_type t \<noteq> None) scenarioTasks \<and>
   length (memberTasksOf ''A'' scenarioTasks) = 20 \<and>
   utilizationPercent (analyzeMember ''B'' \<lparr>specialties = [], capacity = 10\<rparr> scenarioTasks) = 10 \<and>
   (\<exists>reds. redistributeTasks scenarioTeam scenarioTasks 50 = Inr reds \<and> length reds \<le> 4 \<and>
       list_all (\<lambda>r. from_member r = ''A'') reds \<and>
       int (length (filter (\<lambda>r. from_member r = ''A'') reds))
             \<le> \<lfloor>real (length (memberTasksOf ''A'' scenarioTasks)) * 0.2\<rfloor>)"
proof -
  have d: "distinct (map fst scenarioTeam)" by (simp add: scenarioTeam_def)
  have ty: "\<forall>t \<in> set scenarioTasks. task_type t \<noteq> None"
    by (simp add: scenarioTasks_def openTask_def)
  have n: "length (memberTasksOf ''A'' scenarioTasks) = 20"
    by (simp add: scenarioTasks_def openTask_def memberTasksOf_def)
  have u: "utilizationPercent (analyzeMember ''B'' \<lparr>specialties = [], capacity = 10\<rparr> scenarioTasks) = 10"
    by (simp add: scenarioTasks_def openTask_def memberTasksOf_def analyzeMember_def Let_def)
  note inst = C7_redistribution_bound[of scenarioTeam 50 scenarioTasks _ "''A''" "''B''"
      "\<lparr>specialties = [''nsf''], capacity = 10\<rparr>" "\<lparr>specialties = [], capacity = 10\<rparr>"]
  from inst ty obtain reds where r: "redistributeTasks scenarioTeam scenarioTasks 50 = Inr reds"
    by blast
  have r': "redistributeTasks [(''A'', \<lparr>specialties = [''nsf''], capacity = 10\<rparr>),
      (''B'', \<lparr>specialties = [], capacity = 10\<rparr>)] scenarioTasks 50 = Inr reds"
    using r by (simp add: scenarioTeam_def)
  from inst[of reds reds] d r r' n u
  have "length reds \<le> 4 \<and> (\<forall>r \<in> set reds. from_member r = ''A'') \<and>
       (\<forall>m. int (length (filter (\<lambda>r. from_member r = m) reds))
             \<le> \<lfloor>real (length (memberTasksOf m scenarioTasks)) * 0.2\<rfloor>)"
    by simp
  then have "length reds \<le> 4 \<and> list_all (\<lambda>r. from_member r = ''A'') reds \<and>
       int (length (filter (\<lambda>r. from_member r = ''A'') reds))
             \<le> \<lfloor>real (length (memberTasksOf ''A'' scenarioTasks)) * 0.2\<rfloor>"
    unfolding list_all_iff by blast
  moreover have "list_all (\<lambda>t. task_type t \<noteq> None) scenarioTasks"
    using ty unfolding list_all_iff .
  ultimately show ?thesis using d n u r by blast
qed

subsection \<open>C8: the in-memory counts and the choice of target\<close>

text \<open>
  C8. The target of a move does not depend on the workload analysis handed to
  \<^verbatim>\<open>findBestRedistributionTarget\<close>, so the updated counts cannot affect it. On the
  configured roster with 23 open tasks of Mark Vallejo and none of the others, the
  overloaded list is Mark Vallejo and the underloaded list is Monica Archuleta, Stephen
  Brown; the run leaves the counts 19, 4
  and 0, and all four moves go to Monica Archuleta, also after her count has passed that
  of Stephen Brown.
\<close>

theorem C8_targets_ignore_counts:
  "findBestRedistributionTarget team t underloaded wa
     = findBestRedistributionTarget team t underloaded wa' \<and>
   overloadedOf (analyzeCurrentWorkload RETENTION_TEAM overloadTasks) 50
     = [''Mark Vallejo''] \<and>
   underloadedOf (analyzeCurrentWorkload RETENTION_TEAM overloadTasks) 50
     = [''Monica Archuleta'', ''Stephen Brown''] \<and>
   map_sum id (\<lambda>(wa, reds). (assignedCounts wa, map to_member reds))
     (redistributeLoop RETENTION_TEAM overloadTasks [''Monica Archuleta'', ''Stephen Brown'']
        [''Mark Vallejo''] (analyzeCurrentWorkload RETENTION_TEAM overloadTasks, []))
     = Inr ([(''Mark Vallejo'', 19), (''Monica Archuleta'', 4), (''Stephen Brown'', 0)],
            [''Monica Archuleta'', ''Monica Archuleta'', ''Monica Archuleta'', ''Monica Archuleta'']) \<and>
   redistributeTasks RETENTION_TEAM overloadTasks 50
     = Inr [\<lparr>taskId = ''a'', from_member = ''Mark Vallejo'', to_member = ''Monica Archuleta'',
              reason = ''Load balancing''\<rparr>,
            \<lparr>taskId = ''b'', from_member = ''Mark Vallejo'', to_member = ''Monica Archuleta'',
              reason = ''Load balancing''\<rparr>,
            \<lparr>taskId = ''c'', from_member = ''Mark Vallejo'', to_member = ''Monica Archuleta'',
              reason = ''Load balancing''\<rparr>,
            \<lparr>taskId = ''d'', from_member = ''Mark Vallejo'', to_member = ''Monica Archuleta'',
              reason = ''Load balancing''\<rparr>]"
proof (intro conjI)
  show "findBestRedistributionTarget team t underloaded wa
     = findBestRedistributionTarget team t underloaded wa'"
    by (simp add: findBestRedistributionTarget_def)
  show "overloadedOf (analyzeCurrentWorkload RETENTION_TEAM overloadTasks) 50
     = [''Mark Vallejo'']"
    by code_simp
  show "underloadedOf (analyzeCurrentWorkload RETENTION_TEAM overloadTasks) 50
     = [''Monica Archuleta'', ''Stephen Brown'']"
    by code_simp
  show "map_sum id (\<lambda>(wa, reds). (assignedCounts wa, map to_member reds))
     (redistributeLoop RETENTION_TEAM overloadTasks [''Monica Archuleta'', ''Stephen Brown'']
        [''Mark Vallejo''] (analyzeCurrentWorkload RETENTION_TEAM overloadTasks, []))
     = Inr ([(''Mark Vallejo'', 19), (''Monica Archuleta'', 4), (''Stephen Brown'', 0)],
            [''Monica Archuleta'', ''Monica Archuleta'', ''Monica Archuleta'', ''Monica Archuleta''])"
    by code_simp
  show "redistributeTasks RETENTION_TEAM overloadTasks 50
     = Inr [\<lparr>taskId = ''a'', from_member = ''Mark Vallejo'', to_member = ''Monica Archuleta'',
              reason = ''Load balancing''\<rparr>,
            \<lparr>taskId = ''b'', from_member = ''Mark Vallejo'', to_member = ''Monica Archuleta'',
              reason = ''Load balancing''\<rparr>,
            \<lparr>taskId = ''c'', from_member = ''Mark Vallejo'', to_member = ''Monica Archuleta'',
              reason = ''Load balancing''\<rparr>,
            \<lparr>taskId = ''d'', from_member = ''Mark Vallejo'', to_member = ''Monica Archuleta'',
              reason = ''Load balancing''\<rparr>]"
    by code_simp
qed

subsection \<open>C9: the balance score\<close>

text \<open>
  C9. The utilization percentages of the analysis are those of the roster members, one for
  every member. For a non-empty analysis the balance score is \<open>max 0 (100 - s)\<close>, where
  \<open>s\<close> is the population standard deviation of these percentages; for the utilizations 0
  and 100 the mean is 50, the standard deviation is 50 and the balance score is 50.
\<close>

theorem C9_balance_score:
  "map (\<lambda>m. utilizationPercent (snd m)) (analyzeCurrentWorkload team existingTasks)
     = map (\<lambda>(m, d). real (length (memberTasksOf m existingTasks)) / real_of_int (capacity d) * 100)
         team \<and>
   (wa \<noteq> [] \<longrightarrow>
     calculateBalanceScore wa
       = Some (max 0 (100 - stddev (map (\<lambda>m. utilizationPercent (snd m)) wa))) \<and>
     (map (\<lambda>m. utilizationPercent (snd m)) wa = [0, 100] \<longrightarrow>
        mean (map (\<lambda>m. utilizationPercent (snd m)) wa) = 50 \<and>
        stddev (map (\<lambda>m. utilizationPercent (snd m)) wa) = 50 \<and>
        calculateBalanceScore wa = Some 50))"
proof (intro conjI impI)
  show "map (\<lambda>m. utilizationPercent (snd m)) (analyzeCurrentWorkload team existingTasks)
     = map (\<lambda>(m, d). real (length (memberTasksOf m existingTasks)) / real_of_int (capacity d) * 100)
         team"
    by (rule utilizations_analysis)
next
  assume ne: "wa \<noteq> []"
  then show "calculateBalanceScore wa
       = Some (max 0 (100 - stddev (map (\<lambda>m. utilizationPercent (snd m)) wa)))"
    by (rule calculateBalanceScore_eq)
next
  assume ne: "wa \<noteq> []" and u: "map (\<lambda>m. utilizationPercent (snd m)) wa = [0, 100]"
  have m: "mean [0, 100] = 50" by (simp add: mean_def)
  have "stddev [0, 100] = sqrt (50 ^ 2)" unfolding stddev_def m by simp
  then have s: "stddev [0, 100] = 50" by (simp only: real_sqrt_abs)
  show "mean (map (\<lambda>m. utilizationPercent (snd m)) wa) = 50" using u m by simp
  show "stddev (map (\<lambda>m. utilizationPercent (snd m)) wa) = 50" using u s by simp
  show "calculateBalanceScore wa = Some 50" using calculateBalanceScore_eq[OF ne] u s by simp
qed

text \<open>
  Instance of C9: two members of capacity 10, the first without task, the second with 10
  open tasks.
\<close>

theorem C9_balance_score_witness:
  "analyzeCurrentWorkload scenarioTeam balanceTasks \<noteq> [] \<and>
   map (\<lambda>m. utilizationPercent (snd m)) (analyzeCurrentWorkload scenarioTeam balanceTasks)
     = [0, 100] \<and>
   calculateBalanceScore (analyzeCurrentWorkload scenarioTeam balanceTasks) = Some 50"
proof -
  have h1: "analyzeCurrentWorkload scenarioTeam balanceTasks \<noteq> []"
    by (simp add: analyzeCurrentWorkload_def scenarioTeam_def)
  have h2: "map (\<lambda>m. utilizationPercent (snd m)) (analyzeCurrentWorkload scenarioTeam balanceTasks)
     = [0, 100]"
    by (simp add: analyzeCurrentWorkload_def scenarioTeam_def balanceTasks_def openTask_def
        analyzeMember_def memberTasksOf_def Let_def)
  from C9_balance_score[of scenarioTeam balanceTasks
      "analyzeCurrentWorkload scenarioTeam balanceTasks"] h1 h2
  show ?thesis by blast
qed

subsection \<open>C10: unrecognized strategy arguments\<close>

text \<open>
  C10 (as amended). A strategy argument that is a non-empty string and none of the five
  identifiers is dispatched as \<open>hybrid\<close>; a missing or empty strategy argument is
  dispatched as the current strategy of the service (\<open>hybrid\<close> in a new service).
\<close>

theorem C10_unrecognized_strategy:
  "(s \<noteq> [] \<and> s \<notin> set distributionStrategies \<longrightarrow>
      distributeTask team svc t existingTasks (Some s)
        = distributeTask team svc t existingTasks (Some HYBRID)) \<and>
   (strategy = None \<or> strategy = Some [] \<longrightarrow>
      distributeTask team svc t existingTasks strategy
        = distributeTask team svc t existingTasks (Some (currentStrategy svc))) \<and>
   currentStrategy new_service = HYBRID"
proof (intro conjI impI)
  assume "s \<noteq> [] \<and> s \<notin> set distributionStrategies"
  then have "activeStrategy svc (Some s) \<notin> {ROUND_ROBIN, LOAD_BALANCED, SPECIALTY_FIRST, PRIORITY_WEIGHTED}"
    by (auto simp: activeStrategy_def distributionStrategies_def)
  then show "distributeTask team svc t existingTasks (Some s)
        = distributeTask team svc t existingTasks (Some HYBRID)"
    by (simp add: distributeTask_default distributeTask_hybrid)
next
  assume "strategy = None \<or> strategy = Some []"
  then have "activeStrategy svc strategy = activeStrategy svc (Some (currentStrategy svc))"
    by (auto simp: activeStrategy_def)
  then show "distributeTask team svc t existingTasks strategy
        = distributeTask team svc t existingTasks (Some (currentStrategy svc))"
    by (simp add: distributeTask_def)
next
  show "currentStrategy new_service = HYBRID" by (simp add: new_service_def)
qed

text \<open>
  Instance of C10: the argument \<open>fastest\<close>, and a missing argument in a new service.
\<close>

theorem C10_unrecognized_strategy_witness:
  "(''fastest'' \<noteq> [] \<and> ''fastest'' \<notin> set distributionStrategies) \<and>
   distributeTask RETENTION_TEAM new_service nsfTask [] (Some ''fastest'')
     = distributeTask RETENTION_TEAM new_service nsfTask [] (Some HYBRID) \<and>
   distributeTask RETENTION_TEAM new_service nsfTask [] None
     = distributeTask RETENTION_TEAM new_service nsfTask [] (Some (currentStrategy new_service))"
proof -
  have h: "''fastest'' \<noteq> [] \<and> ''fastest'' \<notin> set distributionStrategies"
    by (simp add: distributionStrategies_def ROUND_ROBIN_def LOAD_BALANCED_def SPECIALTY_FIRST_def
        PRIORITY_WEIGHTED_def HYBRID_def)
  from C10_unrecognized_strategy[of "''fastest''" RETENTION_TEAM new_service nsfTask "[]" None]
  show ?thesis using h by simp
qed

text \<open>
  C10, the claim as stated, fails once the current strategy has been set to
  \<open>round_robin\<close>: a missing and an empty strategy argument, neither of them one of the
  five identifiers, select round-robin, which answers Mark Vallejo where hybrid answers
  Monica Archuleta.
\<close>

theorem C10_counterexample:
  "setDistributionStrategy new_service ROUND_ROBIN
     = (\<lparr>currentStrategy = ROUND_ROBIN, lastAssignedIndex = 0\<rparr>, True) \<and>
   fst (distributeTask RETENTION_TEAM \<lparr>currentStrategy = ROUND_ROBIN, lastAssignedIndex = 0\<rparr>
          nsfTask [] None) = Inr (Some ''Mark Vallejo'') \<and>
   fst (distributeTask RETENTION_TEAM \<lparr>currentStrategy = ROUND_ROBIN, lastAssignedIndex = 0\<rparr>
          nsfTask [] (Some '''')) = Inr (Some ''Mark Vallejo'') \<and>
   fst (distributeTask RETENTION_TEAM \<lparr>currentStrategy = ROUND_ROBIN, lastAssignedIndex = 0\<rparr>
          nsfTask [] (Some HYBRID)) = Inr (Some ''Monica Archuleta'')"
  by code_simp

end
